theory Spec2Isabelle
  imports Complex_Main
begin

text \<open>
  A model of the six-phase compiler of the repository (lexer, parser, semantic analyzer,
  IR generator, optimizer, code generator) and of \<open>Compiler.compile\<close>, which runs them
  in order, followed by the statements about it.

  Conventions of the model:
  \<^item> objects are records, passed in and returned; a method that can throw returns a sum
    with the error on the left;
  \<^item> source text is a \<open>string\<close>; line and column numbers are integers;
  \<^item> a \<open>while\<close> loop is a recursive function, with a termination proof where the
    source's loop always ends; the optimizer's outer loop, which need not end, is a
    partial function into \<open>option\<close>, and the mutually recursive parser methods take a
    fuel argument;
  \<^item> JavaScript numbers and the messages of built-in exceptions come from the runtime
    and are parameters of the model.
\<close>

section \<open>JavaScript values and the primitives of the runtime\<close>

text \<open>
  The compiler is written in TypeScript. Operands of IR instructions and literal values of
  the syntax tree are untyped JavaScript values (\<open>any\<close>); the model keeps the shapes that
  occur: numbers, booleans, strings, \<open>null\<close>, \<open>undefined\<close> and arrays.

  Numbers are IEEE doubles in JavaScript. Their arithmetic is a primitive of the runtime,
  not code of the compiler, so the model takes the number type \<open>'n\<close> and its operations as
  a parameter: every definition that computes with numbers receives a record of
  primitives, and the theorems below hold for all of them.
\<close>

datatype 'n val =
    VNum 'n
  | VBool bool
  | VStr string
  | VNull
  | VUndef
  | VArr "'n val list"

record 'n runtime =
  parseFloat :: "string \<Rightarrow> 'n"
  num_add :: "'n \<Rightarrow> 'n \<Rightarrow> 'n"
  num_sub :: "'n \<Rightarrow> 'n \<Rightarrow> 'n"
  num_mul :: "'n \<Rightarrow> 'n \<Rightarrow> 'n"
  num_div :: "'n \<Rightarrow> 'n \<Rightarrow> 'n"
  num_eq :: "'n \<Rightarrow> 'n \<Rightarrow> bool"
  num_lt :: "'n \<Rightarrow> 'n \<Rightarrow> bool"
  num_le :: "'n \<Rightarrow> 'n \<Rightarrow> bool"
  num_neg :: "'n \<Rightarrow> 'n"
  num_of_bool :: "bool \<Rightarrow> 'n"
  num_truthy :: "'n \<Rightarrow> bool"
  num_toString :: "'n \<Rightarrow> string"
  type_error_message :: string
  range_error_message :: string

text \<open>\<open>Array.prototype.join\<close> on strings.\<close>

fun join :: "string \<Rightarrow> string list \<Rightarrow> string" where
  "join sep [] = []"
| "join sep [x] = x"
| "join sep (x # y # ys) = x @ sep @ join sep (y # ys)"

text \<open>
  String conversion, as a template literal applies it. An array converts to its elements
  joined by commas, where \<open>null\<close> and \<open>undefined\<close> elements convert to the empty string.
\<close>

fun toStr :: "'n runtime \<Rightarrow> 'n val \<Rightarrow> string" where
  "toStr rt (VNum n) = num_toString rt n"
| "toStr rt (VBool b) = (if b then ''true'' else ''false'')"
| "toStr rt (VStr s) = s"
| "toStr rt VNull = ''null''"
| "toStr rt VUndef = ''undefined''"
| "toStr rt (VArr xs) =
     join '','' (map (\<lambda>x. if x = VNull \<or> x = VUndef then [] else toStr rt x) xs)"

text \<open>
  Strict equality \<open>===\<close>. Two arrays are equal only when they are the same object; the
  model has no object identity and takes two array operands to be distinct objects.
\<close>

fun strict_eq :: "'n runtime \<Rightarrow> 'n val \<Rightarrow> 'n val \<Rightarrow> bool" where
  "strict_eq rt (VNum a) (VNum b) = num_eq rt a b"
| "strict_eq rt (VArr a) (VArr b) = False"
| "strict_eq rt a b = (a = b)"

text \<open>Truthiness, as an \<open>if\<close> tests it.\<close>

fun truthy :: "'n runtime \<Rightarrow> 'n val \<Rightarrow> bool" where
  "truthy rt (VNum n) = num_truthy rt n"
| "truthy rt (VBool b) = b"
| "truthy rt (VStr s) = (s \<noteq> [])"
| "truthy rt VNull = False"
| "truthy rt VUndef = False"
| "truthy rt (VArr xs) = True"

text \<open>Decimal digits of a natural number, as \<open>String(n)\<close> prints a counter.\<close>

definition digit_char :: "nat \<Rightarrow> char" where
  "digit_char n = ''0123456789'' ! n"

function nat_toString :: "nat \<Rightarrow> string" where
  "nat_toString n = (if n < 10 then [digit_char n] else nat_toString (n div 10) @ [digit_char (n mod 10)])"
  by pat_completeness auto
termination
  by (relation "measure (\<lambda>n. n)") auto

declare nat_toString.simps [simp del]

section \<open>Lexer\<close>

text \<open>
  The lexer reads the source one character at a time. A character of the source is a
  UTF-16 code unit and a character of the model is a byte; the two agree on ASCII text,
  and outside string literals and comments the lexer rejects every character that is not
  ASCII.

  A token as the lexer emits it. The fields are those of the source's \<open>Token\<close> interface
  (\<open>type\<close>, \<open>value\<close>, \<open>line\<close>, \<open>column\<close>), prefixed since the bare names are taken.
\<close>

record Token =
  tok_type :: string
  tok_value :: string
  tok_line :: int
  tok_column :: int

datatype LexicalError = LexicalError string int int

record Lexer =
  source :: string
  position :: nat
  line :: int
  column :: int
  lex_tokens :: "Token list"

definition isAtEnd :: "Lexer \<Rightarrow> bool" where
  "isAtEnd l = (position l \<ge> length (source l))"

definition advance :: "Lexer \<Rightarrow> char \<times> Lexer" where
  "advance l = (source l ! position l, l\<lparr>position := position l + 1, column := column l + 1\<rparr>)"

definition match_char :: "Lexer \<Rightarrow> char \<Rightarrow> bool \<times> Lexer" where
  "match_char l expected =
     (if isAtEnd l then (False, l)
      else if source l ! position l \<noteq> expected then (False, l)
      else (True, l\<lparr>position := position l + 1, column := column l + 1\<rparr>))"

definition peek :: "Lexer \<Rightarrow> char" where
  "peek l = (if isAtEnd l then CHR 0x00 else source l ! position l)"

definition peekNext :: "Lexer \<Rightarrow> char" where
  "peekNext l = (if position l + 1 \<ge> length (source l) then CHR 0x00 else source l ! (position l + 1))"

definition addToken :: "Lexer \<Rightarrow> string \<Rightarrow> string \<Rightarrow> Lexer" where
  "addToken l ty v =
     l\<lparr>lex_tokens := lex_tokens l @
        [\<lparr>tok_type = ty, tok_value = v, tok_line = line l, tok_column = column l - int (length v)\<rparr>]\<rparr>"

definition isDigit :: "char \<Rightarrow> bool" where
  "isDigit c = (of_char (CHR ''0'') \<le> (of_char c :: nat) \<and> (of_char c :: nat) \<le> of_char (CHR ''9''))"

definition isAlpha :: "char \<Rightarrow> bool" where
  "isAlpha c =
     ((of_char (CHR ''a'') \<le> (of_char c :: nat) \<and> (of_char c :: nat) \<le> of_char (CHR ''z'')) \<or>
      (of_char (CHR ''A'') \<le> (of_char c :: nat) \<and> (of_char c :: nat) \<le> of_char (CHR ''Z'')) \<or>
      c = CHR ''_'')"

definition isAlphaNumeric :: "char \<Rightarrow> bool" where
  "isAlphaNumeric c = (isAlpha c \<or> isDigit c)"

definition isKeyword :: "string \<Rightarrow> bool" where
  "isKeyword v =
     (v \<in> set [''if'', ''else'', ''while'', ''for'', ''return'',
                ''int'', ''float'', ''void'', ''string'', ''bool'',
                ''true'', ''false'', ''null'', ''function'', ''var''])"

definition toUpperCase :: "string \<Rightarrow> string" where
  "toUpperCase s =
     map (\<lambda>c. if of_char (CHR ''a'') \<le> (of_char c :: nat) \<and> (of_char c :: nat) \<le> of_char (CHR ''z'')
               then char_of ((of_char c :: nat) - 32) else c) s"

text \<open>The \<open>//\<close> comment loop of \<open>scanToken\<close>: skip to the end of the line.\<close>

function skip_comment :: "Lexer \<Rightarrow> Lexer" where
  "skip_comment l =
     (if peek l \<noteq> CHR 0x0A \<and> \<not> isAtEnd l then skip_comment (snd (advance l)) else l)"
  by pat_completeness auto
termination
  by (relation "measure (\<lambda>l. length (source l) - position l)")
     (auto simp: isAtEnd_def advance_def)

declare skip_comment.simps [simp del]

text \<open>The loop of \<open>string()\<close>, accumulating the literal's text.\<close>

function string_loop :: "Lexer \<Rightarrow> string \<Rightarrow> Lexer \<times> string" where
  "string_loop l v =
     (if peek l \<noteq> CHR 0x22 \<and> \<not> isAtEnd l then
        (let l1 = (if peek l = CHR 0x0A then l\<lparr>line := line l + 1, column := 1\<rparr> else l);
             (c, l2) = advance l1
         in string_loop l2 (v @ [c]))
      else (l, v))"
  by pat_completeness auto
termination
  by (relation "measure (\<lambda>(l, v). length (source l) - position l)")
     (auto simp: isAtEnd_def advance_def)

declare string_loop.simps [simp del]

definition scan_string :: "Lexer \<Rightarrow> LexicalError + Lexer" where
  "scan_string l =
     (let startColumn = column l - 1;
          (l1, v) = string_loop l []
      in if isAtEnd l1 then Inl (LexicalError ''Unterminated string'' (line l1) startColumn)
         else (let (c, l2) = advance l1 in Inr (addToken l2 ''STRING'' v)))"

text \<open>The digit loop shared by the integer and the fraction part of \<open>number()\<close>.\<close>

function digits_loop :: "Lexer \<Rightarrow> string \<Rightarrow> Lexer \<times> string" where
  "digits_loop l v =
     (if isDigit (peek l) then (let (c, l1) = advance l in digits_loop l1 (v @ [c])) else (l, v))"
  by pat_completeness auto
termination
  by (relation "measure (\<lambda>(l, v). length (source l) - position l)")
     (auto simp: isAtEnd_def advance_def peek_def isDigit_def split: if_splits)

declare digits_loop.simps [simp del]

definition scan_number :: "Lexer \<Rightarrow> Lexer" where
  "scan_number l =
     (let v = [source l ! (position l - 1)];
          (l1, v1) = digits_loop l v;
          (l2, v2) =
            (if peek l1 = CHR ''.'' \<and> isDigit (peekNext l1)
             then (let (c, l') = advance l1 in digits_loop l' (v1 @ [c]))
             else (l1, v1))
      in addToken l2 ''NUMBER'' v2)"

function identifier_loop :: "Lexer \<Rightarrow> string \<Rightarrow> Lexer \<times> string" where
  "identifier_loop l v =
     (if isAlphaNumeric (peek l) then (let (c, l1) = advance l in identifier_loop l1 (v @ [c]))
      else (l, v))"
  by pat_completeness auto
termination
  by (relation "measure (\<lambda>(l, v). length (source l) - position l)")
     (auto simp: isAtEnd_def advance_def peek_def isAlphaNumeric_def isAlpha_def isDigit_def
           split: if_splits)

declare identifier_loop.simps [simp del]

definition scan_identifier :: "Lexer \<Rightarrow> Lexer" where
  "scan_identifier l =
     (let v = [source l ! (position l - 1)];
          (l1, v1) = identifier_loop l v;
          ty = (if isKeyword v1 then toUpperCase v1 else ''IDENTIFIER'')
      in addToken l1 ty v1)"

text \<open>
  The two-character operators: the source calls \<open>match('=')\<close> once for the token type and
  once more for the token text, in this order.
\<close>

definition scan_operator :: "Lexer \<Rightarrow> string \<Rightarrow> string \<Rightarrow> string \<Rightarrow> string \<Rightarrow> Lexer" where
  "scan_operator l ty2 ty1 v2 v1 =
     (let (m1, l1) = match_char l (CHR ''='');
          (m2, l2) = match_char l1 (CHR ''='')
      in addToken l2 (if m1 then ty2 else ty1) (if m2 then v2 else v1))"

definition scanToken :: "Lexer \<Rightarrow> LexicalError + Lexer" where
  "scanToken l0 =
     (let (c, l) = advance l0 in
      if c = CHR ''('' then Inr (addToken l ''LEFT_PAREN'' [c])
      else if c = CHR '')'' then Inr (addToken l ''RIGHT_PAREN'' [c])
      else if c = CHR ''{'' then Inr (addToken l ''LEFT_BRACE'' [c])
      else if c = CHR ''}'' then Inr (addToken l ''RIGHT_BRACE'' [c])
      else if c = CHR ''['' then Inr (addToken l ''LEFT_BRACKET'' [c])
      else if c = CHR '']'' then Inr (addToken l ''RIGHT_BRACKET'' [c])
      else if c = CHR '','' then Inr (addToken l ''COMMA'' [c])
      else if c = CHR ''.'' then Inr (addToken l ''DOT'' [c])
      else if c = CHR '';'' then Inr (addToken l ''SEMICOLON'' [c])
      else if c = CHR ''+'' then Inr (addToken l ''PLUS'' [c])
      else if c = CHR ''-'' then Inr (addToken l ''MINUS'' [c])
      else if c = CHR ''*'' then Inr (addToken l ''STAR'' [c])
      else if c = CHR ''/'' then
        (let (m, l1) = match_char l (CHR ''/'') in
         if m then Inr (skip_comment l1) else Inr (addToken l1 ''SLASH'' [c]))
      else if c = CHR ''='' then Inr (scan_operator l ''EQUAL_EQUAL'' ''EQUAL'' ''=='' ''='')
      else if c = CHR ''!'' then Inr (scan_operator l ''BANG_EQUAL'' ''BANG'' ''!='' ''!'')
      else if c = CHR ''<'' then Inr (scan_operator l ''LESS_EQUAL'' ''LESS'' ''<='' ''<'')
      else if c = CHR ''>'' then Inr (scan_operator l ''GREATER_EQUAL'' ''GREATER'' ''>='' ''>'')
      else if c = CHR '' '' \<or> c = CHR 0x0D \<or> c = CHR 0x09 then Inr l
      else if c = CHR 0x0A then Inr (l\<lparr>line := line l + 1, column := 1\<rparr>)
      else if c = CHR 0x22 then scan_string l
      else if isDigit c then Inr (scan_number l)
      else if isAlpha c then Inr (scan_identifier l)
      else Inl (LexicalError (''Unexpected character: '' @ [c]) (line l) (column l - 1)))"

subsection \<open>Every \<open>scanToken\<close> consumes input\<close>

definition advanced :: "Lexer \<Rightarrow> Lexer \<Rightarrow> bool" where
  "advanced l l' =
     (source l' = source l \<and> position l \<le> position l' \<and>
      (position l \<le> length (source l) \<longrightarrow> position l' \<le> length (source l)))"

lemma advanced_refl: "advanced l l"
  by (simp add: advanced_def)

lemma advanced_trans: "advanced l l1 \<Longrightarrow> advanced l1 l2 \<Longrightarrow> advanced l l2"
  by (auto simp: advanced_def)

lemma advanced_addToken: "advanced l (addToken l ty v)"
  by (simp add: advanced_def addToken_def)

lemma advanced_match_char: "advanced l (snd (match_char l c))"
  by (simp add: advanced_def match_char_def isAtEnd_def)

lemma advanced_skip_comment: "advanced l (skip_comment l)"
proof (induction l rule: skip_comment.induct)
  case (1 l)
  show ?case
  proof (cases "peek l \<noteq> CHR 0x0A \<and> \<not> isAtEnd l")
    case True
    then have "advanced l (snd (advance l))"
      by (simp add: advanced_def advance_def isAtEnd_def)
    moreover from True 1 have "advanced (snd (advance l)) (skip_comment (snd (advance l)))"
      by simp
    ultimately have "advanced l (skip_comment (snd (advance l)))"
      by (rule advanced_trans)
    with True show ?thesis by (subst skip_comment.simps) simp
  next
    case False
    then show ?thesis by (subst skip_comment.simps) (auto simp: advanced_refl)
  qed
qed

lemma advanced_string_loop: "advanced l (fst (string_loop l v))"
proof (induction l v rule: string_loop.induct)
  case (1 l v)
  show ?case
  proof (cases "peek l \<noteq> CHR 0x22 \<and> \<not> isAtEnd l")
    case True
    define l1 where "l1 = (if peek l = CHR 0x0A then l\<lparr>line := line l + 1, column := 1\<rparr> else l)"
    obtain c l2 where adv: "advance l1 = (c, l2)" by (cases "advance l1")
    from True adv have "advanced l l2"
      by (auto simp: advanced_def advance_def isAtEnd_def l1_def split: if_splits)
    moreover from True adv 1 [OF True l1_def] have "advanced l2 (fst (string_loop l2 (v @ [c])))"
      by simp
    ultimately have "advanced l (fst (string_loop l2 (v @ [c])))"
      by (rule advanced_trans)
    with True adv show ?thesis
      by (subst string_loop.simps) (simp add: l1_def Let_def)
  next
    case False
    then show ?thesis by (subst string_loop.simps) (auto simp: advanced_refl)
  qed
qed

lemma advanced_digits_loop: "advanced l (fst (digits_loop l v))"
proof (induction l v rule: digits_loop.induct)
  case (1 l v)
  show ?case
  proof (cases "isDigit (peek l)")
    case True
    obtain c l1 where adv: "advance l = (c, l1)" by (cases "advance l")
    from True have "\<not> isAtEnd l"
      by (auto simp: peek_def isDigit_def split: if_splits)
    with adv have "advanced l l1"
      by (auto simp: advanced_def advance_def isAtEnd_def)
    moreover from True adv 1 have "advanced l1 (fst (digits_loop l1 (v @ [c])))"
      by simp
    ultimately have "advanced l (fst (digits_loop l1 (v @ [c])))"
      by (rule advanced_trans)
    with True adv show ?thesis by (subst digits_loop.simps) simp
  next
    case False
    then show ?thesis by (subst digits_loop.simps) (simp add: advanced_refl)
  qed
qed

lemma advanced_identifier_loop: "advanced l (fst (identifier_loop l v))"
proof (induction l v rule: identifier_loop.induct)
  case (1 l v)
  show ?case
  proof (cases "isAlphaNumeric (peek l)")
    case True
    obtain c l1 where adv: "advance l = (c, l1)" by (cases "advance l")
    from True have "\<not> isAtEnd l"
      by (auto simp: peek_def isAlphaNumeric_def isAlpha_def isDigit_def split: if_splits)
    with adv have "advanced l l1"
      by (auto simp: advanced_def advance_def isAtEnd_def)
    moreover from True adv 1 have "advanced l1 (fst (identifier_loop l1 (v @ [c])))"
      by simp
    ultimately have "advanced l (fst (identifier_loop l1 (v @ [c])))"
      by (rule advanced_trans)
    with True adv show ?thesis by (subst identifier_loop.simps) simp
  next
    case False
    then show ?thesis by (subst identifier_loop.simps) (simp add: advanced_refl)
  qed
qed

lemma advanced_scan_string: "scan_string l = Inr l' \<Longrightarrow> advanced l l'"
proof -
  assume ok: "scan_string l = Inr l'"
  obtain l1 v where loop: "string_loop l [] = (l1, v)" by (cases "string_loop l []")
  with ok have notend: "\<not> isAtEnd l1" and l': "l' = addToken (snd (advance l1)) ''STRING'' v"
    by (auto simp: scan_string_def Let_def split: if_splits prod.splits)
  from loop advanced_string_loop [of l "[]"] have "advanced l l1" by simp
  moreover from notend have "advanced l1 (snd (advance l1))"
    by (simp add: advanced_def advance_def isAtEnd_def)
  moreover have "advanced (snd (advance l1)) l'"
    unfolding l' by (rule advanced_addToken)
  ultimately show ?thesis by (blast intro: advanced_trans)
qed

lemma advanced_scan_number: "advanced l (scan_number l)"
proof -
  define v where "v = [source l ! (position l - 1)]"
  obtain l1 v1 where d1: "digits_loop l v = (l1, v1)" by (cases "digits_loop l v")
  from d1 advanced_digits_loop [of l v] have a1: "advanced l l1" by simp
  show ?thesis
  proof (cases "peek l1 = CHR ''.'' \<and> isDigit (peekNext l1)")
    case True
    obtain c l' where adv: "advance l1 = (c, l')" by (cases "advance l1")
    obtain l2 v2 where d2: "digits_loop l' (v1 @ [c]) = (l2, v2)" by (cases "digits_loop l' (v1 @ [c])")
    from True have "\<not> isAtEnd l1" by (auto simp: peek_def split: if_splits)
    with adv have "advanced l1 l'" by (auto simp: advanced_def advance_def isAtEnd_def)
    moreover from d2 advanced_digits_loop [of l' "v1 @ [c]"] have "advanced l' l2" by simp
    ultimately have "advanced l l2" using a1 by (blast intro: advanced_trans)
    then have "advanced l (addToken l2 ''NUMBER'' v2)"
      by (blast intro: advanced_trans advanced_addToken)
    with True d1 adv d2 show ?thesis
      by (simp add: scan_number_def v_def)
  next
    case False
    from a1 have "advanced l (addToken l1 ''NUMBER'' v1)"
      by (blast intro: advanced_trans advanced_addToken)
    with False d1 show ?thesis
      by (auto simp: scan_number_def v_def)
  qed
qed

lemma advanced_scan_identifier: "advanced l (scan_identifier l)"
proof -
  define v where "v = [source l ! (position l - 1)]"
  obtain l1 v1 where d1: "identifier_loop l v = (l1, v1)" by (cases "identifier_loop l v")
  from d1 advanced_identifier_loop [of l v] have "advanced l l1" by simp
  then have "advanced l (addToken l1 (if isKeyword v1 then toUpperCase v1 else ''IDENTIFIER'') v1)"
    by (blast intro: advanced_trans advanced_addToken)
  with d1 show ?thesis by (simp add: scan_identifier_def v_def)
qed

lemma advanced_scan_operator: "advanced l (scan_operator l ty2 ty1 v2 v1)"
proof -
  obtain m1 l1 where m1: "match_char l (CHR ''='') = (m1, l1)" by (cases "match_char l (CHR ''='')")
  obtain m2 l2 where m2: "match_char l1 (CHR ''='') = (m2, l2)" by (cases "match_char l1 (CHR ''='')")
  from m1 advanced_match_char [of l "CHR ''=''"] have "advanced l l1" by simp
  moreover from m2 advanced_match_char [of l1 "CHR ''=''"] have "advanced l1 l2" by simp
  ultimately have "advanced l (addToken l2 (if m1 then ty2 else ty1) (if m2 then v2 else v1))"
    by (blast intro: advanced_trans advanced_addToken)
  with m1 m2 show ?thesis by (simp add: scan_operator_def)
qed

lemma scanToken_advanced:
  assumes "scanToken l0 = Inr l'"
  shows "advanced (snd (advance l0)) l'"
proof -
  define l where "l = snd (advance l0)"
  define c where "c = fst (advance l0)"
  have adv: "advance l0 = (c, l)" by (simp add: l_def c_def)
  have slash: "advanced l (if fst (match_char l (CHR ''/'')) then skip_comment (snd (match_char l (CHR ''/'')))
                           else addToken (snd (match_char l (CHR ''/''))) ''SLASH'' [c])"
    by (auto intro: advanced_trans advanced_match_char advanced_skip_comment advanced_addToken)
  have nl: "advanced l (l\<lparr>line := line l + 1, column := 1\<rparr>)"
    by (simp add: advanced_def)
  from assms adv show ?thesis
    unfolding l_def [symmetric]
    using slash nl
    by (auto simp: scanToken_def Let_def advanced_addToken advanced_refl advanced_scan_operator
          advanced_scan_number advanced_scan_identifier advanced_scan_string
          split: if_splits prod.splits)
qed

lemma scanToken_progress:
  assumes "\<not> isAtEnd l" and "scanToken l = Inr l'"
  shows "length (source l') - position l' < length (source l) - position l"
proof -
  from assms(2) have "advanced (snd (advance l)) l'" by (rule scanToken_advanced)
  with assms(1) show ?thesis
    by (auto simp: advanced_def advance_def isAtEnd_def)
qed

function tokenize_loop :: "Lexer \<Rightarrow> LexicalError + Lexer" where
  "tokenize_loop l =
     (if \<not> isAtEnd l then
        (case scanToken l of Inl e \<Rightarrow> Inl e | Inr l' \<Rightarrow> tokenize_loop l')
      else Inr l)"
  by pat_completeness auto
termination
  by (relation "measure (\<lambda>l. length (source l) - position l)")
     (auto simp: scanToken_progress)

declare tokenize_loop.simps [simp del]

definition tokenize :: "string \<Rightarrow> LexicalError + Token list" where
  "tokenize src =
     (case tokenize_loop \<lparr>source = src, position = 0, line = 1, column = 1, lex_tokens = []\<rparr> of
        Inl e \<Rightarrow> Inl e
      | Inr l \<Rightarrow> Inr (lex_tokens (addToken l ''EOF'' [])))"

section \<open>Syntax tree\<close>

text \<open>
  The source's \<open>ASTNode\<close> is a record tagged by a \<open>type\<close> string; the parser builds the
  eighteen shapes below and nothing else. Nullable children are options.
\<close>

datatype 'n node =
    Program "'n node list"
  | VariableDeclaration string "'n node option"
  | FunctionDeclaration string "string list" "'n node"
  | BlockStatement "'n node list"
  | ExpressionStatement "'n node"
  | IfStatement "'n node" "'n node" "'n node option"
  | WhileStatement "'n node" "'n node"
  | ForStatement "'n node option" "'n node option" "'n node option" "'n node"
  | ReturnStatement "'n node option"
  | BinaryExpression string "'n node" "'n node"
  | UnaryExpression string "'n node"
  | LogicalExpression string "'n node" "'n node"
  | AssignmentExpression string "'n node" "'n node"
  | CallExpression "'n node" "'n node list"
  | MemberExpression "'n node" "'n node"
  | Identifier string
  | Literal "'n val"
  | GroupExpression "'n node"

fun is_Identifier :: "'n node \<Rightarrow> bool" where
  "is_Identifier (Identifier name) = True"
| "is_Identifier other = False"

section \<open>Parser\<close>

text \<open>
  The parser holds the token array and the index \<open>current\<close>. A parsing method either
  returns a value or throws; both leave a new \<open>current\<close> behind. Reading a property of
  \<open>tokens[current]\<close> when \<open>current\<close> is past the end of the array is a JavaScript
  \<open>TypeError\<close>.

  The methods call each other recursively. In the model the recursion is bounded by a fuel
  argument: a method that runs out of fuel returns \<open>None\<close>, which is not a result of the
  program. The parser for nested expressions (and, for statements, for nested declarations)
  is passed down as an argument.
\<close>

datatype ParseError = SyntaxError string Token | ParserTypeError

type_synonym 'a parser = "Token list \<Rightarrow> nat \<Rightarrow> ((ParseError \<times> nat) + ('a \<times> nat)) option"

definition p_return :: "'a \<Rightarrow> 'a parser" where
  "p_return x ts cur = Some (Inr (x, cur))"

definition p_throw :: "ParseError \<Rightarrow> 'a parser" where
  "p_throw e ts cur = Some (Inl (e, cur))"

definition out_of_fuel :: "'a parser" where
  "out_of_fuel ts cur = None"

definition p_bind :: "'a parser \<Rightarrow> ('a \<Rightarrow> 'b parser) \<Rightarrow> 'b parser" where
  "p_bind m f ts cur =
     (case m ts cur of
        None \<Rightarrow> None
      | Some (Inl e) \<Rightarrow> Some (Inl e)
      | Some (Inr (x, cur')) \<Rightarrow> f x ts cur')"

definition p_isAtEnd :: "bool parser" where
  "p_isAtEnd ts cur =
     (if cur < length ts then Some (Inr (tok_type (ts ! cur) = ''EOF'', cur))
      else Some (Inl (ParserTypeError, cur)))"

definition p_peek :: "Token parser" where
  "p_peek ts cur =
     (if cur < length ts then Some (Inr (ts ! cur, cur)) else Some (Inl (ParserTypeError, cur)))"

definition p_previous :: "Token parser" where
  "p_previous ts cur =
     (if 0 < cur \<and> cur - 1 < length ts then Some (Inr (ts ! (cur - 1), cur))
      else Some (Inl (ParserTypeError, cur)))"

definition p_check :: "string \<Rightarrow> bool parser" where
  "p_check ty ts cur =
     (p_bind p_isAtEnd (\<lambda>atEnd.
       if atEnd then p_return False
       else p_bind p_peek (\<lambda>t. p_return (tok_type t = ty)))) ts cur"

definition p_advance :: "unit parser" where
  "p_advance ts cur =
     (p_bind p_isAtEnd (\<lambda>atEnd ts cur. Some (Inr ((), if \<not> atEnd then cur + 1 else cur)))) ts cur"

fun p_match :: "string list \<Rightarrow> bool parser" where
  "p_match [] ts cur =
     (p_return False) ts cur"
| "p_match (ty # types) ts cur =
     (p_bind (p_check ty) (\<lambda>c.
       if c then p_bind p_advance (\<lambda>u. p_return True) else p_match types)) ts cur"

definition p_consume :: "string \<Rightarrow> string \<Rightarrow> Token parser" where
  "p_consume ty message ts cur =
     (p_bind (p_check ty) (\<lambda>c.
       if c then p_bind p_advance (\<lambda>u. p_previous)
       else p_bind p_peek (\<lambda>t. p_throw (SyntaxError message t)))) ts cur"

subsection \<open>Expressions\<close>

definition primary :: "'n runtime \<Rightarrow> 'n node parser \<Rightarrow> 'n node parser" where
  "primary rt expression ts cur =
     (p_bind (p_match [''FALSE'']) (\<lambda>m. if m then p_return (Literal (VBool False)) else
     p_bind (p_match [''TRUE'']) (\<lambda>m. if m then p_return (Literal (VBool True)) else
     p_bind (p_match [''NULL'']) (\<lambda>m. if m then p_return (Literal VNull) else
     p_bind (p_match [''NUMBER'']) (\<lambda>m. if m then
         p_bind p_previous (\<lambda>t. p_return (Literal (VNum (parseFloat rt (tok_value t))))) else
     p_bind (p_match [''STRING'']) (\<lambda>m. if m then
         p_bind p_previous (\<lambda>t. p_return (Literal (VStr (tok_value t)))) else
     p_bind (p_match [''IDENTIFIER'']) (\<lambda>m. if m then
         p_bind p_previous (\<lambda>t. p_return (Identifier (tok_value t))) else
     p_bind (p_match [''LEFT_PAREN'']) (\<lambda>m. if m then
         p_bind expression (\<lambda>expr.
         p_bind (p_consume ''RIGHT_PAREN'' ''Expect ')' after expression.'') (\<lambda>t.
         p_return (GroupExpression expr))) else
     p_bind p_peek (\<lambda>t. p_throw (SyntaxError ''Expect expression.'' t)))))))))) ts cur"

text \<open>
  The argument loop of \<open>finishCall\<close>. With 255 arguments already read the source builds
  a \<open>SyntaxError\<close> and drops it (there is no \<open>throw\<close>), so the loop goes on.
\<close>

fun arguments_loop :: "nat \<Rightarrow> 'n node parser \<Rightarrow> 'n node list \<Rightarrow> 'n node list parser" where
  "arguments_loop 0 expression args ts cur =
     (out_of_fuel) ts cur"
| "arguments_loop (Suc n) expression args ts cur =
     (p_bind expression (\<lambda>a.
     p_bind (p_match [''COMMA'']) (\<lambda>m.
       if m then arguments_loop n expression (args @ [a]) else p_return (args @ [a])))) ts cur"

definition finishCall :: "nat \<Rightarrow> 'n node parser \<Rightarrow> 'n node \<Rightarrow> 'n node parser" where
  "finishCall n expression callee ts cur =
     (p_bind (p_check ''RIGHT_PAREN'') (\<lambda>c.
     p_bind (if \<not> c then arguments_loop n expression [] else p_return []) (\<lambda>args.
     p_bind (p_consume ''RIGHT_PAREN'' ''Expect ')' after arguments.'') (\<lambda>paren.
     p_return (CallExpression callee args))))) ts cur"

fun call_loop :: "nat \<Rightarrow> 'n node parser \<Rightarrow> 'n node \<Rightarrow> 'n node parser" where
  "call_loop 0 expression expr ts cur =
     (out_of_fuel) ts cur"
| "call_loop (Suc n) expression expr ts cur =
     (p_bind (p_match [''LEFT_PAREN'']) (\<lambda>m. if m then
         p_bind (finishCall n expression expr) (\<lambda>expr'. call_loop n expression expr') else
     p_bind (p_match [''DOT'']) (\<lambda>m. if m then
         p_bind (p_consume ''IDENTIFIER'' ''Expect property name after '.'.'') (\<lambda>name.
         call_loop n expression (MemberExpression expr (Identifier (tok_value name))))
       else p_return expr))) ts cur"

definition call :: "nat \<Rightarrow> 'n runtime \<Rightarrow> 'n node parser \<Rightarrow> 'n node parser" where
  "call n rt expression ts cur =
     (p_bind (primary rt expression) (\<lambda>expr. call_loop n expression expr)) ts cur"

fun unary :: "nat \<Rightarrow> 'n runtime \<Rightarrow> 'n node parser \<Rightarrow> 'n node parser" where
  "unary 0 rt expression ts cur =
     (out_of_fuel) ts cur"
| "unary (Suc n) rt expression ts cur =
     (p_bind (p_match [''BANG'', ''MINUS'']) (\<lambda>m. if m then
         p_bind p_previous (\<lambda>operator.
         p_bind (unary n rt expression) (\<lambda>right.
         p_return (UnaryExpression (tok_value operator) right)))
       else call n rt expression)) ts cur"

text \<open>
  The \<open>while (this.match(...))\<close> loop that \<open>factor\<close>, \<open>term\<close> (here \<open>term_expr\<close>), \<open>comparison\<close>,
  \<open>equality\<close>, \<open>logicalAnd\<close> and \<open>logicalOr\<close> each contain: the operator of the new node
  is the text of the token just matched.
\<close>

fun binary_loop ::
  "nat \<Rightarrow> string list \<Rightarrow> (string \<Rightarrow> 'n node \<Rightarrow> 'n node \<Rightarrow> 'n node) \<Rightarrow> 'n node parser
     \<Rightarrow> 'n node \<Rightarrow> 'n node parser" where
  "binary_loop 0 types mk operand expr ts cur =
     (out_of_fuel) ts cur"
| "binary_loop (Suc n) types mk operand expr ts cur =
     (p_bind (p_match types) (\<lambda>m. if m then
         p_bind p_previous (\<lambda>operator.
         p_bind operand (\<lambda>right.
         binary_loop n types mk operand (mk (tok_value operator) expr right)))
       else p_return expr)) ts cur"

definition factor :: "nat \<Rightarrow> 'n runtime \<Rightarrow> 'n node parser \<Rightarrow> 'n node parser" where
  "factor n rt expression ts cur =
     (p_bind (unary n rt expression)
       (binary_loop n [''SLASH'', ''STAR''] BinaryExpression (unary n rt expression))) ts cur"

definition term_expr :: "nat \<Rightarrow> 'n runtime \<Rightarrow> 'n node parser \<Rightarrow> 'n node parser" where
  "term_expr n rt expression ts cur =
     (p_bind (factor n rt expression)
       (binary_loop n [''MINUS'', ''PLUS''] BinaryExpression (factor n rt expression))) ts cur"

definition comparison :: "nat \<Rightarrow> 'n runtime \<Rightarrow> 'n node parser \<Rightarrow> 'n node parser" where
  "comparison n rt expression ts cur =
     (p_bind (term_expr n rt expression)
       (binary_loop n [''GREATER'', ''GREATER_EQUAL'', ''LESS'', ''LESS_EQUAL''] BinaryExpression
          (term_expr n rt expression))) ts cur"

definition equality :: "nat \<Rightarrow> 'n runtime \<Rightarrow> 'n node parser \<Rightarrow> 'n node parser" where
  "equality n rt expression ts cur =
     (p_bind (comparison n rt expression)
       (binary_loop n [''BANG_EQUAL'', ''EQUAL_EQUAL''] BinaryExpression (comparison n rt expression))) ts cur"

definition logicalAnd :: "nat \<Rightarrow> 'n runtime \<Rightarrow> 'n node parser \<Rightarrow> 'n node parser" where
  "logicalAnd n rt expression ts cur =
     (p_bind (equality n rt expression)
       (binary_loop n [''AND''] LogicalExpression (equality n rt expression))) ts cur"

definition logicalOr :: "nat \<Rightarrow> 'n runtime \<Rightarrow> 'n node parser \<Rightarrow> 'n node parser" where
  "logicalOr n rt expression ts cur =
     (p_bind (logicalAnd n rt expression)
       (binary_loop n [''OR''] LogicalExpression (logicalAnd n rt expression))) ts cur"

text \<open>
  \<open>assignment\<close>: when the left side is not an identifier the source evaluates
  \<open>this.error(equals, "Invalid assignment target.")\<close>, which builds a \<open>SyntaxError\<close>
  and returns it; the statement has no \<open>throw\<close>, so control falls through to
  \<open>return expr\<close>.
\<close>

fun assignment :: "nat \<Rightarrow> 'n runtime \<Rightarrow> 'n node parser \<Rightarrow> 'n node parser" where
  "assignment 0 rt expression ts cur =
     (out_of_fuel) ts cur"
| "assignment (Suc n) rt expression ts cur =
     (p_bind (logicalOr n rt expression) (\<lambda>expr.
     p_bind (p_match [''EQUAL'']) (\<lambda>m. if m then
         p_bind p_previous (\<lambda>equals.
         p_bind (assignment n rt expression) (\<lambda>v.
           if is_Identifier expr then p_return (AssignmentExpression ''='' expr v)
           else p_return expr))
       else p_return expr))) ts cur"

fun expression :: "nat \<Rightarrow> 'n runtime \<Rightarrow> 'n node parser" where
  "expression 0 rt ts cur =
     (out_of_fuel) ts cur"
| "expression (Suc n) rt ts cur =
     (assignment n rt (expression n rt)) ts cur"

subsection \<open>Statements and declarations\<close>

definition varDeclaration :: "nat \<Rightarrow> 'n runtime \<Rightarrow> 'n node parser" where
  "varDeclaration n rt ts cur =
     (p_bind (p_consume ''IDENTIFIER'' ''Expect variable name.'') (\<lambda>name.
     p_bind (p_match [''EQUAL'']) (\<lambda>m.
     p_bind (if m then p_bind (expression n rt) (\<lambda>e. p_return (Some e)) else p_return None)
       (\<lambda>initializer.
     p_bind (p_consume ''SEMICOLON'' ''Expect ';' after variable declaration.'') (\<lambda>t.
     p_return (VariableDeclaration (tok_value name) initializer)))))) ts cur"

text \<open>The parameter loop; the 255-parameter error is built and dropped, as above.\<close>

fun parameters_loop :: "nat \<Rightarrow> string list \<Rightarrow> string list parser" where
  "parameters_loop 0 parameters ts cur =
     (out_of_fuel) ts cur"
| "parameters_loop (Suc n) parameters ts cur =
     (p_bind (p_consume ''IDENTIFIER'' ''Expect parameter name.'') (\<lambda>name.
     p_bind (p_match [''COMMA'']) (\<lambda>m.
       if m then parameters_loop n (parameters @ [tok_value name])
       else p_return (parameters @ [tok_value name])))) ts cur"

definition functionDeclaration :: "nat \<Rightarrow> 'n node parser \<Rightarrow> 'n node parser" where
  "functionDeclaration n block ts cur =
     (p_bind (p_consume ''IDENTIFIER'' ''Expect function name.'') (\<lambda>name.
     p_bind (p_consume ''LEFT_PAREN'' ''Expect '(' after function name.'') (\<lambda>t.
     p_bind (p_check ''RIGHT_PAREN'') (\<lambda>c.
     p_bind (if \<not> c then parameters_loop n [] else p_return []) (\<lambda>parameters.
     p_bind (p_consume ''RIGHT_PAREN'' ''Expect ')' after parameters.'') (\<lambda>t.
     p_bind (p_consume ''LEFT_BRACE'' ''Expect '{' before function body.'') (\<lambda>t.
     p_bind block (\<lambda>body.
     p_return (FunctionDeclaration (tok_value name) parameters body))))))))) ts cur"

definition expressionStatement :: "nat \<Rightarrow> 'n runtime \<Rightarrow> 'n node parser" where
  "expressionStatement n rt ts cur =
     (p_bind (expression n rt) (\<lambda>expr.
     p_bind (p_consume ''SEMICOLON'' ''Expect ';' after expression.'') (\<lambda>t.
     p_return (ExpressionStatement expr)))) ts cur"

definition ifStatement :: "nat \<Rightarrow> 'n runtime \<Rightarrow> 'n node parser \<Rightarrow> 'n node parser" where
  "ifStatement n rt statement ts cur =
     (p_bind (p_consume ''LEFT_PAREN'' ''Expect '(' after 'if'.'') (\<lambda>t.
     p_bind (expression n rt) (\<lambda>condition.
     p_bind (p_consume ''RIGHT_PAREN'' ''Expect ')' after if condition.'') (\<lambda>t.
     p_bind statement (\<lambda>thenBranch.
     p_bind (p_match [''ELSE'']) (\<lambda>m.
     p_bind (if m then p_bind statement (\<lambda>s. p_return (Some s)) else p_return None) (\<lambda>elseBranch.
     p_return (IfStatement condition thenBranch elseBranch)))))))) ts cur"

definition whileStatement :: "nat \<Rightarrow> 'n runtime \<Rightarrow> 'n node parser \<Rightarrow> 'n node parser" where
  "whileStatement n rt statement ts cur =
     (p_bind (p_consume ''LEFT_PAREN'' ''Expect '(' after 'while'.'') (\<lambda>t.
     p_bind (expression n rt) (\<lambda>condition.
     p_bind (p_consume ''RIGHT_PAREN'' ''Expect ')' after condition.'') (\<lambda>t.
     p_bind statement (\<lambda>body.
     p_return (WhileStatement condition body)))))) ts cur"

definition forStatement :: "nat \<Rightarrow> 'n runtime \<Rightarrow> 'n node parser \<Rightarrow> 'n node parser" where
  "forStatement n rt statement ts cur =
     (p_bind (p_consume ''LEFT_PAREN'' ''Expect '(' after 'for'.'') (\<lambda>t.
     p_bind (p_match [''SEMICOLON'']) (\<lambda>m.
     p_bind (if m then p_return None else
             p_bind (p_match [''VAR'']) (\<lambda>v.
               if v then p_bind (varDeclaration n rt) (\<lambda>d. p_return (Some d))
               else p_bind (expressionStatement n rt) (\<lambda>s. p_return (Some s)))) (\<lambda>initializer.
     p_bind (p_check ''SEMICOLON'') (\<lambda>c.
     p_bind (if \<not> c then p_bind (expression n rt) (\<lambda>e. p_return (Some e)) else p_return None)
       (\<lambda>condition.
     p_bind (p_consume ''SEMICOLON'' ''Expect ';' after loop condition.'') (\<lambda>t.
     p_bind (p_check ''RIGHT_PAREN'') (\<lambda>c.
     p_bind (if \<not> c then p_bind (expression n rt) (\<lambda>e. p_return (Some e)) else p_return None)
       (\<lambda>increment.
     p_bind (p_consume ''RIGHT_PAREN'' ''Expect ')' after for clauses.'') (\<lambda>t.
     p_bind statement (\<lambda>body.
     p_return (ForStatement initializer condition increment body)))))))))))) ts cur"

definition returnStatement :: "nat \<Rightarrow> 'n runtime \<Rightarrow> 'n node parser" where
  "returnStatement n rt ts cur =
     (p_bind (p_check ''SEMICOLON'') (\<lambda>c.
     p_bind (if \<not> c then p_bind (expression n rt) (\<lambda>e. p_return (Some e)) else p_return None) (\<lambda>v.
     p_bind (p_consume ''SEMICOLON'' ''Expect ';' after return value.'') (\<lambda>t.
     p_return (ReturnStatement v))))) ts cur"

fun block_loop :: "nat \<Rightarrow> 'n node parser \<Rightarrow> 'n node list \<Rightarrow> 'n node list parser" where
  "block_loop 0 decl statements ts cur =
     (out_of_fuel) ts cur"
| "block_loop (Suc n) decl statements ts cur =
     (p_bind (p_check ''RIGHT_BRACE'') (\<lambda>c.
     p_bind (if c then p_return True else p_isAtEnd) (\<lambda>stop.
       if \<not> stop then p_bind decl (\<lambda>d. block_loop n decl (statements @ [d]))
       else p_return statements))) ts cur"

definition block :: "nat \<Rightarrow> 'n node parser \<Rightarrow> 'n node parser" where
  "block n decl ts cur =
     (p_bind (block_loop n decl []) (\<lambda>statements.
     p_bind (p_consume ''RIGHT_BRACE'' ''Expect '}' after block.'') (\<lambda>t.
     p_return (BlockStatement statements)))) ts cur"

fun statement :: "nat \<Rightarrow> 'n runtime \<Rightarrow> 'n node parser \<Rightarrow> 'n node parser" where
  "statement 0 rt decl ts cur =
     (out_of_fuel) ts cur"
| "statement (Suc n) rt decl ts cur =
     (p_bind (p_match [''IF'']) (\<lambda>m. if m then ifStatement n rt (statement n rt decl) else
     p_bind (p_match [''WHILE'']) (\<lambda>m. if m then whileStatement n rt (statement n rt decl) else
     p_bind (p_match [''FOR'']) (\<lambda>m. if m then forStatement n rt (statement n rt decl) else
     p_bind (p_match [''RETURN'']) (\<lambda>m. if m then returnStatement n rt else
     p_bind (p_match [''LEFT_BRACE'']) (\<lambda>m. if m then block n decl else
     expressionStatement n rt)))))) ts cur"

text \<open>
  \<open>synchronize\<close>, run by \<open>declaration\<close> (here \<open>declaration_stmt\<close>) on a caught error before it throws the error
  again: skip to the next statement boundary.
\<close>

function synchronize_loop :: "Token list \<Rightarrow> nat \<Rightarrow> ParseError + nat" where
  "synchronize_loop ts cur =
     (if \<not> cur < length ts then Inl ParserTypeError
      else if tok_type (ts ! cur) = ''EOF'' then Inr cur
      else if cur = 0 then Inl ParserTypeError
      else if tok_type (ts ! (cur - 1)) = ''SEMICOLON'' then Inr cur
      else if tok_type (ts ! cur) \<in>
                set [''CLASS'', ''FUNCTION'', ''VAR'', ''FOR'', ''IF'', ''WHILE'', ''RETURN'']
           then Inr cur
      else synchronize_loop ts (cur + 1))"
  by pat_completeness auto
termination
  by (relation "measure (\<lambda>(ts, cur). length ts - cur)") auto

declare synchronize_loop.simps [simp del]

definition synchronize :: "Token list \<Rightarrow> nat \<Rightarrow> ParseError + nat" where
  "synchronize ts cur =
     (case p_advance ts cur of
        Some (Inr (u, cur')) \<Rightarrow> synchronize_loop ts cur'
      | _ \<Rightarrow> Inl ParserTypeError)"

definition try_synchronize :: "'a parser \<Rightarrow> 'a parser" where
  "try_synchronize body ts cur =
     (case body ts cur of
        Some (Inl (error, cur')) \<Rightarrow>
          (case synchronize ts cur' of
             Inl e \<Rightarrow> Some (Inl (e, cur'))
           | Inr cur'' \<Rightarrow> Some (Inl (error, cur'')))
      | r \<Rightarrow> r)"

fun declaration_stmt :: "nat \<Rightarrow> 'n runtime \<Rightarrow> 'n node parser" where
  "declaration_stmt 0 rt ts cur =
     (out_of_fuel) ts cur"
| "declaration_stmt (Suc n) rt ts cur =
     (try_synchronize
       (p_bind (p_match [''VAR'']) (\<lambda>m. if m then varDeclaration n rt else
        p_bind (p_match [''FUNCTION'']) (\<lambda>m.
          if m then functionDeclaration n (block n (declaration_stmt n rt))
          else statement n rt (declaration_stmt n rt))))) ts cur"

fun program_loop :: "nat \<Rightarrow> 'n runtime \<Rightarrow> 'n node list \<Rightarrow> 'n node list parser" where
  "program_loop 0 rt statements ts cur =
     (out_of_fuel) ts cur"
| "program_loop (Suc n) rt statements ts cur =
     (p_bind p_isAtEnd (\<lambda>atEnd.
       if \<not> atEnd then p_bind (declaration_stmt n rt) (\<lambda>d. program_loop n rt (statements @ [d]))
       else p_return statements)) ts cur"

definition program :: "nat \<Rightarrow> 'n runtime \<Rightarrow> 'n node parser" where
  "program n rt ts cur =
     (p_bind (program_loop n rt []) (\<lambda>statements. p_return (Program statements))) ts cur"

text \<open>\<open>new Parser(tokens).parse()\<close>: \<open>current\<close> starts at 0; a caught error is thrown again.\<close>

definition parse :: "nat \<Rightarrow> 'n runtime \<Rightarrow> Token list \<Rightarrow> (ParseError + 'n node) option" where
  "parse n rt ts =
     (case program n rt ts 0 of
        None \<Rightarrow> None
      | Some (Inl (e, cur)) \<Rightarrow> Some (Inl e)
      | Some (Inr (ast, cur)) \<Rightarrow> Some (Inr ast))"

subsection \<open>More fuel never changes a result\<close>

text \<open>
  \<open>refines p q\<close>: wherever \<open>p\<close> has a result, \<open>q\<close> has the same one. Every parsing
  method with more fuel refines the method with less, so the result of \<open>parse\<close>, once
  the fuel suffices for one, is the same for every larger fuel.
\<close>

definition refines :: "'a parser \<Rightarrow> 'a parser \<Rightarrow> bool" where
  "refines p q = (\<forall>ts cur r. p ts cur = Some r \<longrightarrow> q ts cur = Some r)"

lemma refines_refl: "refines p p"
  by (simp add: refines_def)

lemma refines_cong:
  "(\<And>ts cur. p ts cur = p0 ts cur) \<Longrightarrow> (\<And>ts cur. q ts cur = q0 ts cur) \<Longrightarrow> refines p0 q0
     \<Longrightarrow> refines p q"
  by (simp add: refines_def)

lemma refines_out_of_fuel: "(\<And>ts cur. p ts cur = out_of_fuel ts cur) \<Longrightarrow> refines p q"
  by (simp add: refines_def out_of_fuel_def)

lemma refines_bind:
  "refines p p' \<Longrightarrow> (\<And>x. refines (f x) (f' x)) \<Longrightarrow> refines (p_bind p f) (p_bind p' f')"
  unfolding refines_def p_bind_def
  by (auto split: option.splits sum.splits prod.splits)

lemma refines_if:
  "(b \<Longrightarrow> refines p p') \<Longrightarrow> (\<not> b \<Longrightarrow> refines q q')
     \<Longrightarrow> refines (if b then p else q) (if b then p' else q')"
  by simp

lemma refines_try: "refines p p' \<Longrightarrow> refines (try_synchronize p) (try_synchronize p')"
  unfolding refines_def try_synchronize_def
  by (auto split: option.splits sum.splits prod.splits)

lemmas refines_intros = refines_bind refines_if refines_try refines_refl

lemma primary_mono: "refines e e' \<Longrightarrow> refines (primary rt e) (primary rt e')"
  by (rule refines_cong [OF primary_def primary_def]) (intro refines_intros, assumption)

lemma arguments_loop_mono:
  "n \<le> m \<Longrightarrow> refines e e' \<Longrightarrow> refines (arguments_loop n e as) (arguments_loop m e' as)"
proof (induction n arbitrary: m as)
  case 0
  show ?case by (rule refines_out_of_fuel) simp
next
  case (Suc n)
  then obtain m' where m: "m = Suc m'" and le: "n \<le> m'" by (cases m) auto
  show ?case unfolding m
    by (rule refines_cong [OF arguments_loop.simps(2) arguments_loop.simps(2)])
       (intro refines_intros Suc.prems(2) Suc.IH [OF le Suc.prems(2)])
qed

lemma finishCall_mono:
  "n \<le> m \<Longrightarrow> refines e e' \<Longrightarrow> refines (finishCall n e callee) (finishCall m e' callee)"
  by (rule refines_cong [OF finishCall_def finishCall_def])
     (intro refines_intros arguments_loop_mono, assumption+)

lemma call_loop_mono:
  "n \<le> m \<Longrightarrow> refines e e' \<Longrightarrow> refines (call_loop n e expr) (call_loop m e' expr)"
proof (induction n arbitrary: m expr)
  case 0
  show ?case by (rule refines_out_of_fuel) simp
next
  case (Suc n)
  then obtain m' where m: "m = Suc m'" and le: "n \<le> m'" by (cases m) auto
  show ?case unfolding m
    by (rule refines_cong [OF call_loop.simps(2) call_loop.simps(2)])
       (intro refines_intros finishCall_mono [OF le Suc.prems(2)] Suc.IH [OF le Suc.prems(2)])
qed

lemma call_mono:
  "n \<le> m \<Longrightarrow> refines e e' \<Longrightarrow> refines (call n rt e) (call m rt e')"
  by (rule refines_cong [OF call_def call_def])
     (intro refines_intros primary_mono call_loop_mono, assumption+)

lemma unary_mono:
  "n \<le> m \<Longrightarrow> refines e e' \<Longrightarrow> refines (unary n rt e) (unary m rt e')"
proof (induction n arbitrary: m)
  case 0
  show ?case by (rule refines_out_of_fuel) simp
next
  case (Suc n)
  then obtain m' where m: "m = Suc m'" and le: "n \<le> m'" by (cases m) auto
  show ?case unfolding m
    by (rule refines_cong [OF unary.simps(2) unary.simps(2)])
       (intro refines_intros call_mono [OF le Suc.prems(2)] Suc.IH [OF le Suc.prems(2)])
qed

lemma binary_loop_mono:
  "n \<le> m \<Longrightarrow> refines operand operand'
     \<Longrightarrow> refines (binary_loop n types mk operand expr) (binary_loop m types mk operand' expr)"
proof (induction n arbitrary: m expr)
  case 0
  show ?case by (rule refines_out_of_fuel) simp
next
  case (Suc n)
  then obtain m' where m: "m = Suc m'" and le: "n \<le> m'" by (cases m) auto
  show ?case unfolding m
    by (rule refines_cong [OF binary_loop.simps(2) binary_loop.simps(2)])
       (intro refines_intros Suc.prems(2) Suc.IH [OF le Suc.prems(2)])
qed

lemma factor_mono:
  "n \<le> m \<Longrightarrow> refines e e' \<Longrightarrow> refines (factor n rt e) (factor m rt e')"
  by (rule refines_cong [OF factor_def factor_def])
     (intro refines_intros binary_loop_mono unary_mono, assumption+)

lemma term_expr_mono:
  "n \<le> m \<Longrightarrow> refines e e' \<Longrightarrow> refines (term_expr n rt e) (term_expr m rt e')"
  by (rule refines_cong [OF term_expr_def term_expr_def])
     (intro refines_intros binary_loop_mono factor_mono, assumption+)

lemma comparison_mono:
  "n \<le> m \<Longrightarrow> refines e e' \<Longrightarrow> refines (comparison n rt e) (comparison m rt e')"
  by (rule refines_cong [OF comparison_def comparison_def])
     (intro refines_intros binary_loop_mono term_expr_mono, assumption+)

lemma equality_mono:
  "n \<le> m \<Longrightarrow> refines e e' \<Longrightarrow> refines (equality n rt e) (equality m rt e')"
  by (rule refines_cong [OF equality_def equality_def])
     (intro refines_intros binary_loop_mono comparison_mono, assumption+)

lemma logicalAnd_mono:
  "n \<le> m \<Longrightarrow> refines e e' \<Longrightarrow> refines (logicalAnd n rt e) (logicalAnd m rt e')"
  by (rule refines_cong [OF logicalAnd_def logicalAnd_def])
     (intro refines_intros binary_loop_mono equality_mono, assumption+)

lemma logicalOr_mono:
  "n \<le> m \<Longrightarrow> refines e e' \<Longrightarrow> refines (logicalOr n rt e) (logicalOr m rt e')"
  by (rule refines_cong [OF logicalOr_def logicalOr_def])
     (intro refines_intros binary_loop_mono logicalAnd_mono, assumption+)

lemma assignment_mono:
  "n \<le> m \<Longrightarrow> refines e e' \<Longrightarrow> refines (assignment n rt e) (assignment m rt e')"
proof (induction n arbitrary: m)
  case 0
  show ?case by (rule refines_out_of_fuel) simp
next
  case (Suc n)
  then obtain m' where m: "m = Suc m'" and le: "n \<le> m'" by (cases m) auto
  show ?case unfolding m
    by (rule refines_cong [OF assignment.simps(2) assignment.simps(2)])
       (intro refines_intros logicalOr_mono [OF le Suc.prems(2)] Suc.IH [OF le Suc.prems(2)])
qed

lemma expression_mono: "n \<le> m \<Longrightarrow> refines (expression n rt) (expression m rt)"
proof (induction n arbitrary: m)
  case 0
  show ?case by (rule refines_out_of_fuel) simp
next
  case (Suc n)
  then obtain m' where m: "m = Suc m'" and le: "n \<le> m'" by (cases m) auto
  show ?case unfolding m
    by (rule refines_cong [OF expression.simps(2) expression.simps(2)])
       (rule assignment_mono [OF le Suc.IH [OF le]])
qed

lemma varDeclaration_mono: "n \<le> m \<Longrightarrow> refines (varDeclaration n rt) (varDeclaration m rt)"
  by (rule refines_cong [OF varDeclaration_def varDeclaration_def])
     (intro refines_intros expression_mono, assumption+)

lemma parameters_loop_mono:
  "n \<le> m \<Longrightarrow> refines (parameters_loop n ps) (parameters_loop m ps)"
proof (induction n arbitrary: m ps)
  case 0
  show ?case by (rule refines_out_of_fuel) simp
next
  case (Suc n)
  then obtain m' where m: "m = Suc m'" and le: "n \<le> m'" by (cases m) auto
  show ?case unfolding m
    by (rule refines_cong [OF parameters_loop.simps(2) parameters_loop.simps(2)])
       (intro refines_intros Suc.IH [OF le])
qed

lemma functionDeclaration_mono:
  "n \<le> m \<Longrightarrow> refines b b' \<Longrightarrow> refines (functionDeclaration n b) (functionDeclaration m b')"
  by (rule refines_cong [OF functionDeclaration_def functionDeclaration_def])
     (intro refines_intros parameters_loop_mono, assumption+)

lemma expressionStatement_mono:
  "n \<le> m \<Longrightarrow> refines (expressionStatement n rt) (expressionStatement m rt)"
  by (rule refines_cong [OF expressionStatement_def expressionStatement_def])
     (intro refines_intros expression_mono, assumption+)

lemma ifStatement_mono:
  "n \<le> m \<Longrightarrow> refines s s' \<Longrightarrow> refines (ifStatement n rt s) (ifStatement m rt s')"
  by (rule refines_cong [OF ifStatement_def ifStatement_def])
     (intro refines_intros expression_mono, assumption+)

lemma whileStatement_mono:
  "n \<le> m \<Longrightarrow> refines s s' \<Longrightarrow> refines (whileStatement n rt s) (whileStatement m rt s')"
  by (rule refines_cong [OF whileStatement_def whileStatement_def])
     (intro refines_intros expression_mono, assumption+)

lemma forStatement_mono:
  "n \<le> m \<Longrightarrow> refines s s' \<Longrightarrow> refines (forStatement n rt s) (forStatement m rt s')"
  by (rule refines_cong [OF forStatement_def forStatement_def])
     (intro refines_intros expression_mono varDeclaration_mono expressionStatement_mono,
      assumption+)

lemma returnStatement_mono:
  "n \<le> m \<Longrightarrow> refines (returnStatement n rt) (returnStatement m rt)"
  by (rule refines_cong [OF returnStatement_def returnStatement_def])
     (intro refines_intros expression_mono, assumption+)

lemma block_loop_mono:
  "n \<le> m \<Longrightarrow> refines d d' \<Longrightarrow> refines (block_loop n d ss) (block_loop m d' ss)"
proof (induction n arbitrary: m ss)
  case 0
  show ?case by (rule refines_out_of_fuel) simp
next
  case (Suc n)
  then obtain m' where m: "m = Suc m'" and le: "n \<le> m'" by (cases m) auto
  show ?case unfolding m
    by (rule refines_cong [OF block_loop.simps(2) block_loop.simps(2)])
       (intro refines_intros Suc.prems(2) Suc.IH [OF le Suc.prems(2)])
qed

lemma block_mono:
  "n \<le> m \<Longrightarrow> refines d d' \<Longrightarrow> refines (block n d) (block m d')"
  by (rule refines_cong [OF block_def block_def])
     (intro refines_intros block_loop_mono, assumption+)

lemma statement_mono:
  "n \<le> m \<Longrightarrow> refines d d' \<Longrightarrow> refines (statement n rt d) (statement m rt d')"
proof (induction n arbitrary: m)
  case 0
  show ?case by (rule refines_out_of_fuel) simp
next
  case (Suc n)
  then obtain m' where m: "m = Suc m'" and le: "n \<le> m'" by (cases m) auto
  note IH = Suc.IH [OF le Suc.prems(2)]
  show ?case unfolding m
    by (rule refines_cong [OF statement.simps(2) statement.simps(2)])
       (intro refines_intros ifStatement_mono [OF le IH] whileStatement_mono [OF le IH]
          forStatement_mono [OF le IH] returnStatement_mono [OF le]
          block_mono [OF le Suc.prems(2)] expressionStatement_mono [OF le])
qed

lemma declaration_stmt_mono: "n \<le> m \<Longrightarrow> refines (declaration_stmt n rt) (declaration_stmt m rt)"
proof (induction n arbitrary: m)
  case 0
  show ?case by (rule refines_out_of_fuel) simp
next
  case (Suc n)
  then obtain m' where m: "m = Suc m'" and le: "n \<le> m'" by (cases m) auto
  note IH = Suc.IH [OF le]
  show ?case unfolding m
    by (rule refines_cong [OF declaration_stmt.simps(2) declaration_stmt.simps(2)])
       (intro refines_intros varDeclaration_mono [OF le]
          functionDeclaration_mono [OF le block_mono [OF le IH]] statement_mono [OF le IH])
qed

lemma program_loop_mono: "n \<le> m \<Longrightarrow> refines (program_loop n rt ss) (program_loop m rt ss)"
proof (induction n arbitrary: m ss)
  case 0
  show ?case by (rule refines_out_of_fuel) simp
next
  case (Suc n)
  then obtain m' where m: "m = Suc m'" and le: "n \<le> m'" by (cases m) auto
  show ?case unfolding m
    by (rule refines_cong [OF program_loop.simps(2) program_loop.simps(2)])
       (intro refines_intros declaration_stmt_mono [OF le] Suc.IH [OF le])
qed

lemma program_mono: "n \<le> m \<Longrightarrow> refines (program n rt) (program m rt)"
  by (rule refines_cong [OF program_def program_def])
     (intro refines_intros program_loop_mono, assumption+)

lemma parse_mono:
  assumes "parse n rt ts = Some r" and "n \<le> m"
  shows "parse m rt ts = Some r"
proof -
  from assms(1) obtain r0 where r0: "program n rt ts 0 = Some r0"
    by (auto simp: parse_def split: option.splits)
  with program_mono [OF assms(2), of rt] have "program m rt ts 0 = Some r0"
    by (simp add: refines_def)
  with r0 assms(1) show ?thesis by (simp add: parse_def)
qed

section \<open>Semantic analyzer\<close>

text \<open>
  A symbol table is a JavaScript object used as a dictionary from names to entries;
  \<open>Object.entries\<close> lists it in insertion order, so the model is an association list.
  Storing under a name that is present replaces the entry where it stands.

  A name that \<open>Object.prototype\<close> also defines, such as \<open>toString\<close> or \<open>constructor\<close>,
  is found in every such object, and the model does not cover programs that use those
  names as identifiers: the code reports \<open>var constructor = 1;\<close> as declared already
  and the bare use \<open>toString;\<close> as a use before initialization, where \<open>declare_name\<close>
  and \<open>lookupVariable\<close> below, which find a scope's own entries only, accept the first
  and report the second as a use before declaration. No statement below is about such a
  name.
\<close>

record SymbolInfo =
  sym_type :: string
  initialized :: bool
  used :: bool

type_synonym SymbolTable = "(string \<times> SymbolInfo) list"

datatype 'n SemanticError = SemanticError string "'n node"

fun error_message :: "'n SemanticError \<Rightarrow> string" where
  "error_message (SemanticError m node) = m"

record 'n SemanticAnalyzer =
  scopes :: "SymbolTable list"
  currentScope :: SymbolTable
  sem_errors :: "'n SemanticError list"

fun table_set :: "SymbolTable \<Rightarrow> string \<Rightarrow> SymbolInfo \<Rightarrow> SymbolTable" where
  "table_set [] name info = [(name, info)]"
| "table_set ((k, v) # rest) name info =
     (if k = name then (k, info) # rest else (k, v) # table_set rest name info)"

definition quoted :: "string \<Rightarrow> string" where
  "quoted s = [CHR 0x27] @ s @ [CHR 0x27]"

definition push_error :: "string \<Rightarrow> 'n node \<Rightarrow> 'n SemanticAnalyzer \<Rightarrow> 'n SemanticAnalyzer" where
  "push_error m node a = a\<lparr>sem_errors := sem_errors a @ [SemanticError m node]\<rparr>"

definition enterScope :: "'n SemanticAnalyzer \<Rightarrow> 'n SemanticAnalyzer" where
  "enterScope a = a\<lparr>scopes := scopes a @ [currentScope a], currentScope := []\<rparr>"

text \<open>\<open>exitScope\<close> reports every entry of the scope it leaves that is not marked used.\<close>

definition exitScope :: "'n SemanticAnalyzer \<Rightarrow> 'n SemanticAnalyzer" where
  "exitScope a =
     (let a1 = fold (\<lambda>(name, info) a'.
                  if \<not> used info
                  then push_error (''Variable '' @ quoted name @ '' is declared but never used'')
                         (Identifier name) a'
                  else a') (currentScope a) a
      in if scopes a1 = [] then a1\<lparr>currentScope := []\<rparr>
         else a1\<lparr>currentScope := last (scopes a1), scopes := butlast (scopes a1)\<rparr>)"

text \<open>
  \<open>lookupVariable\<close> returns a reference to the entry it finds: in the current scope
  first, then in the saved scopes from the innermost outwards. The model reads the entry
  with \<open>lookupVariable\<close> and writes through the reference with \<open>update_variable\<close>,
  which changes the entry at the place where the lookup finds it.
\<close>

fun lookup_outer :: "SymbolTable list \<Rightarrow> string \<Rightarrow> SymbolInfo option" where
  "lookup_outer [] name = None"
| "lookup_outer (scope # outer) name =
     (case map_of scope name of Some info \<Rightarrow> Some info | None \<Rightarrow> lookup_outer outer name)"

definition lookupVariable :: "'n SemanticAnalyzer \<Rightarrow> string \<Rightarrow> SymbolInfo option" where
  "lookupVariable a name =
     (case map_of (currentScope a) name of
        Some info \<Rightarrow> Some info
      | None \<Rightarrow> lookup_outer (rev (scopes a)) name)"

fun update_outer :: "SymbolTable list \<Rightarrow> string \<Rightarrow> (SymbolInfo \<Rightarrow> SymbolInfo) \<Rightarrow> SymbolTable list" where
  "update_outer [] name f = []"
| "update_outer (scope # outer) name f =
     (case map_of scope name of
        Some info \<Rightarrow> table_set scope name (f info) # outer
      | None \<Rightarrow> scope # update_outer outer name f)"

definition update_variable ::
  "string \<Rightarrow> (SymbolInfo \<Rightarrow> SymbolInfo) \<Rightarrow> 'n SemanticAnalyzer \<Rightarrow> 'n SemanticAnalyzer" where
  "update_variable name f a =
     (case map_of (currentScope a) name of
        Some info \<Rightarrow> a\<lparr>currentScope := table_set (currentScope a) name (f info)\<rparr>
      | None \<Rightarrow> a\<lparr>scopes := rev (update_outer (rev (scopes a)) name f)\<rparr>)"

definition declare_name ::
  "string \<Rightarrow> string \<Rightarrow> SymbolInfo \<Rightarrow> 'n node \<Rightarrow> 'n SemanticAnalyzer \<Rightarrow> 'n SemanticAnalyzer" where
  "declare_name what name info node a =
     (if map_of (currentScope a) name \<noteq> None
      then push_error (what @ '' '' @ quoted name @ '' already declared in this scope'') node a
      else a\<lparr>currentScope := table_set (currentScope a) name info\<rparr>)"

definition add_parameter :: "string \<Rightarrow> 'n SemanticAnalyzer \<Rightarrow> 'n SemanticAnalyzer" where
  "add_parameter param a =
     a\<lparr>currentScope := table_set (currentScope a) param
          \<lparr>sym_type = ''parameter'', initialized = True, used = False\<rparr>\<rparr>"

definition check_parameters :: "'n node \<Rightarrow> 'n SemanticAnalyzer \<Rightarrow> 'n SemanticAnalyzer" where
  "check_parameters node a =
     fold (\<lambda>(name, info) a'.
             if sym_type info = ''parameter'' \<and> \<not> used info
             then push_error (''Parameter '' @ quoted name @ '' is never used'') node a'
             else a') (currentScope a) a"

definition visitIdentifier :: "'n node \<Rightarrow> string \<Rightarrow> 'n SemanticAnalyzer \<Rightarrow> 'n SemanticAnalyzer" where
  "visitIdentifier node name a =
     (case lookupVariable a name of
        None \<Rightarrow> push_error (''Variable '' @ quoted name @ '' used before declaration'') node a
      | Some variable \<Rightarrow>
          (let a1 = update_variable name (\<lambda>v. v\<lparr>used := True\<rparr>) a
           in if \<not> initialized variable
              then push_error (''Variable '' @ quoted name @ '' used before initialization'') node a1
              else a1))"

definition assign_target :: "'n node \<Rightarrow> string \<Rightarrow> 'n SemanticAnalyzer \<Rightarrow> 'n SemanticAnalyzer" where
  "assign_target node name a =
     (case lookupVariable a name of
        None \<Rightarrow> push_error (''Variable '' @ quoted name @ '' used before declaration'') node a
      | Some variable \<Rightarrow> update_variable name (\<lambda>v. v\<lparr>initialized := True\<rparr>) a)"

definition call_target :: "'n node \<Rightarrow> string \<Rightarrow> 'n SemanticAnalyzer \<Rightarrow> 'n SemanticAnalyzer" where
  "call_target node name a =
     (case lookupVariable a name of
        None \<Rightarrow> push_error (''Function '' @ quoted name @ '' called before declaration'') node a
      | Some func \<Rightarrow>
          if sym_type func \<noteq> ''function''
          then push_error (quoted name @ '' is not a function'') node a
          else update_variable name (\<lambda>v. v\<lparr>used := True\<rparr>) a)"

fun visit :: "'n node \<Rightarrow> 'n SemanticAnalyzer \<Rightarrow> 'n SemanticAnalyzer" where
  "visit (Program body) a = fold visit body a"
| "visit (VariableDeclaration name initializer) a =
     (let a1 = declare_name ''Variable'' name
                 \<lparr>sym_type = ''variable'', initialized = (initializer \<noteq> None), used = False\<rparr>
                 (VariableDeclaration name initializer) a
      in case initializer of Some e \<Rightarrow> visit e a1 | None \<Rightarrow> a1)"
| "visit (FunctionDeclaration name params body) a =
     (let a1 = declare_name ''Function'' name
                 \<lparr>sym_type = ''function'', initialized = True, used = False\<rparr>
                 (FunctionDeclaration name params body) a;
          a2 = enterScope a1;
          a3 = fold add_parameter params a2;
          a4 = visit body a3;
          a5 = check_parameters (FunctionDeclaration name params body) a4
      in exitScope a5)"
| "visit (BlockStatement body) a = exitScope (fold visit body (enterScope a))"
| "visit (ExpressionStatement e) a = visit e a"
| "visit (IfStatement condition thenBranch elseBranch) a =
     (let a1 = visit condition a;
          a2 = visit thenBranch a1
      in case elseBranch of Some e \<Rightarrow> visit e a2 | None \<Rightarrow> a2)"
| "visit (WhileStatement condition body) a = visit body (visit condition a)"
| "visit (ForStatement initializer condition increment body) a =
     (let a1 = enterScope a;
          a2 = (case initializer of Some i \<Rightarrow> visit i a1 | None \<Rightarrow> a1);
          a3 = (case condition of Some c \<Rightarrow> visit c a2 | None \<Rightarrow> a2);
          a4 = (case increment of Some u \<Rightarrow> visit u a3 | None \<Rightarrow> a3);
          a5 = visit body a4
      in exitScope a5)"
| "visit (ReturnStatement v) a = (case v of Some e \<Rightarrow> visit e a | None \<Rightarrow> a)"
| "visit (BinaryExpression operator left right) a = visit right (visit left a)"
| "visit (UnaryExpression operator argument) a = visit argument a"
| "visit (LogicalExpression operator left right) a = visit right (visit left a)"
| "visit (AssignmentExpression operator left right) a =
     (let a1 = (case left of
                  Identifier name \<Rightarrow> assign_target (AssignmentExpression operator left right) name a
                | _ \<Rightarrow> visit left a)
      in visit right a1)"
| "visit (CallExpression callee arguments) a =
     (let a1 = visit callee a;
          a2 = (case callee of
                  Identifier name \<Rightarrow> call_target (CallExpression callee arguments) name a1
                | _ \<Rightarrow> a1)
      in fold visit arguments a2)"
| "visit (MemberExpression object property) a = visit object a"
| "visit (Identifier name) a = visitIdentifier (Identifier name) name a"
| "visit (Literal v) a = a"
| "visit (GroupExpression e) a = visit e a"

text \<open>
  The constructor enters one scope. \<open>analyze\<close> empties the error list, walks the tree and
  returns the errors; the scopes are those the previous call left.
\<close>

definition new_SemanticAnalyzer :: "'n SemanticAnalyzer" where
  "new_SemanticAnalyzer = enterScope \<lparr>scopes = [], currentScope = [], sem_errors = []\<rparr>"

definition analyze ::
  "'n SemanticAnalyzer \<Rightarrow> 'n node \<Rightarrow> 'n SemanticError list \<times> 'n SemanticAnalyzer" where
  "analyze a ast = (let a1 = visit ast (a\<lparr>sem_errors := []\<rparr>) in (sem_errors a1, a1))"

section \<open>Intermediate representation\<close>

record 'n IRInstruction =
  op :: string
  args :: "'n val list"

text \<open>Reading \<open>instr.args[i]\<close>: an index past the end of the array gives \<open>undefined\<close>.\<close>

definition arg :: "'n IRInstruction \<Rightarrow> nat \<Rightarrow> 'n val" where
  "arg instr i = (if i < length (args instr) then args instr ! i else VUndef)"

section \<open>IR generator\<close>

record 'n IRGenerator =
  instructions :: "'n IRInstruction list"
  tempCounter :: nat
  labelCounter :: nat

datatype 'n IRGenerationError = IRGenerationError string "'n node"

definition emit :: "string \<Rightarrow> 'n val list \<Rightarrow> 'n IRGenerator \<Rightarrow> 'n IRGenerator" where
  "emit opc as g = g\<lparr>instructions := instructions g @ [\<lparr>op = opc, args = as\<rparr>]\<rparr>"

definition createTemp :: "'n IRGenerator \<Rightarrow> string \<times> 'n IRGenerator" where
  "createTemp g = (''t'' @ nat_toString (tempCounter g), g\<lparr>tempCounter := tempCounter g + 1\<rparr>)"

definition createLabel :: "string \<Rightarrow> 'n IRGenerator \<Rightarrow> string \<times> 'n IRGenerator" where
  "createLabel prefix g =
     (prefix @ ''_'' @ nat_toString (labelCounter g), g\<lparr>labelCounter := labelCounter g + 1\<rparr>)"

text \<open>Reading \<open>node.name\<close>: \<open>undefined\<close> on a node that has no such field.\<close>

fun node_name :: "'n node \<Rightarrow> 'n val" where
  "node_name (Identifier name) = VStr name"
| "node_name (VariableDeclaration name initializer) = VStr name"
| "node_name (FunctionDeclaration name params body) = VStr name"
| "node_name other = VUndef"

definition binary_operation :: "string \<Rightarrow> string option" where
  "binary_operation operator =
     (if operator = ''+'' then Some ''ADD''
      else if operator = ''-'' then Some ''SUB''
      else if operator = ''*'' then Some ''MUL''
      else if operator = ''/'' then Some ''DIV''
      else if operator = ''=='' then Some ''EQ''
      else if operator = ''!='' then Some ''NEQ''
      else if operator = ''<'' then Some ''LT''
      else if operator = ''<='' then Some ''LTE''
      else if operator = ''>'' then Some ''GT''
      else if operator = ''>='' then Some ''GTE''
      else None)"

definition unary_operation :: "string \<Rightarrow> string option" where
  "unary_operation operator =
     (if operator = ''-'' then Some ''NEG''
      else if operator = ''!'' then Some ''NOT''
      else None)"

definition g_bind ::
  "('e + ('a \<times> 's)) \<Rightarrow> ('a \<Rightarrow> 's \<Rightarrow> 'e + ('b \<times> 's)) \<Rightarrow> 'e + ('b \<times> 's)" where
  "g_bind r f = (case r of Inl e \<Rightarrow> Inl e | Inr (x, g) \<Rightarrow> f x g)"

text \<open>
  \<open>generateIR\<close> returns the name of the temporary (or variable) that holds the value of
  the node. \<open>generate_each\<close> is the \<open>for (... of ...)\<close> loop over statements or arguments;
  it collects the names, which only the call expression reads.
\<close>

fun generateIR ::
    "'n node \<Rightarrow> 'n IRGenerator \<Rightarrow> 'n IRGenerationError + (string \<times> 'n IRGenerator)"
  and generate_each ::
    "'n node list \<Rightarrow> 'n IRGenerator \<Rightarrow> 'n IRGenerationError + (string list \<times> 'n IRGenerator)"
  and generate_optional ::
    "'n node option \<Rightarrow> 'n IRGenerator \<Rightarrow> 'n IRGenerationError + (string \<times> 'n IRGenerator)"
where
  "generate_each [] g = Inr ([], g)"
| "generate_each (node # rest) g =
     g_bind (generateIR node g) (\<lambda>t g1.
     g_bind (generate_each rest g1) (\<lambda>ts g2. Inr (t # ts, g2)))"
| "generate_optional None g = Inr ('''', g)"
| "generate_optional (Some node) g = generateIR node g"
| "generateIR (Program body) g =
     g_bind (generate_each body g) (\<lambda>ts g1. Inr ('''', g1))"
| "generateIR (VariableDeclaration varName initializer) g =
     (case initializer of
        Some e \<Rightarrow>
          g_bind (generateIR e g) (\<lambda>valueTemp g1.
            Inr (varName, emit ''STORE'' [VStr valueTemp, VStr varName] g1))
      | None \<Rightarrow> Inr (varName, emit ''DECLARE'' [VStr varName] g))"
| "generateIR (FunctionDeclaration funcName params body) g =
     g_bind (generateIR body (emit ''FUNCTION_START'' [VStr funcName, VArr (map VStr params)] g))
       (\<lambda>t g1. Inr (funcName, emit ''FUNCTION_END'' [VStr funcName] g1))"
| "generateIR (BlockStatement body) g =
     g_bind (generate_each body (emit ''BLOCK_START'' [] g)) (\<lambda>ts g1.
       Inr ('''', emit ''BLOCK_END'' [] g1))"
| "generateIR (ExpressionStatement e) g =
     g_bind (generateIR e g) (\<lambda>t g1. Inr ('''', g1))"
| "generateIR (IfStatement condition thenBranch elseBranch) g =
     g_bind (generateIR condition g) (\<lambda>conditionTemp g1.
       let (elseLabel, g2) = createLabel ''else'' g1;
           (endLabel, g3) = createLabel ''endif'' g2;
           g4 = emit ''JUMP_IF_FALSE'' [VStr conditionTemp, VStr elseLabel] g3
       in g_bind (generateIR thenBranch g4) (\<lambda>t g5.
            let g6 = emit ''LABEL'' [VStr elseLabel] (emit ''JUMP'' [VStr endLabel] g5)
            in g_bind (generate_optional elseBranch g6) (\<lambda>t g7.
                 Inr ('''', emit ''LABEL'' [VStr endLabel] g7))))"
| "generateIR (WhileStatement condition body) g =
     (let (startLabel, g1) = createLabel ''while'' g;
          (endLabel, g2) = createLabel ''endwhile'' g1;
          g3 = emit ''LABEL'' [VStr startLabel] g2
      in g_bind (generateIR condition g3) (\<lambda>conditionTemp g4.
         g_bind (generateIR body (emit ''JUMP_IF_FALSE'' [VStr conditionTemp, VStr endLabel] g4))
           (\<lambda>t g5.
              Inr ('''', emit ''LABEL'' [VStr endLabel] (emit ''JUMP'' [VStr startLabel] g5)))))"
| "generateIR (ForStatement initializer condition increment body) g =
     (let (startLabel, g1) = createLabel ''for'' g;
          (updateLabel, g2) = createLabel ''forupdate'' g1;
          (endLabel, g3) = createLabel ''endfor'' g2
      in g_bind (generate_optional initializer g3) (\<lambda>t g4.
         g_bind (case condition of
                   Some c \<Rightarrow>
                     g_bind (generateIR c (emit ''LABEL'' [VStr startLabel] g4)) (\<lambda>conditionTemp g5.
                       Inr ([] :: string, emit ''JUMP_IF_FALSE'' [VStr conditionTemp, VStr endLabel] g5))
                 | None \<Rightarrow> Inr ([] :: string, emit ''LABEL'' [VStr startLabel] g4)) (\<lambda>t g6.
         g_bind (generateIR body g6) (\<lambda>t g7.
         g_bind (generate_optional increment (emit ''LABEL'' [VStr updateLabel] g7)) (\<lambda>t g8.
           Inr ('''', emit ''LABEL'' [VStr endLabel] (emit ''JUMP'' [VStr startLabel] g8)))))))"
| "generateIR (ReturnStatement v) g =
     (case v of
        Some e \<Rightarrow> g_bind (generateIR e g) (\<lambda>valueTemp g1. Inr ('''', emit ''RETURN'' [VStr valueTemp] g1))
      | None \<Rightarrow> Inr ('''', emit ''RETURN'' [] g))"
| "generateIR (BinaryExpression operator left right) g =
     g_bind (generateIR left g) (\<lambda>leftTemp g1.
     g_bind (generateIR right g1) (\<lambda>rightTemp g2.
       let (resultTemp, g3) = createTemp g2
       in case binary_operation operator of
            Some operation \<Rightarrow>
              Inr (resultTemp, emit operation [VStr leftTemp, VStr rightTemp, VStr resultTemp] g3)
          | None \<Rightarrow>
              Inl (IRGenerationError (''Unknown binary operator: '' @ operator)
                     (BinaryExpression operator left right))))"
| "generateIR (UnaryExpression operator argument) g =
     g_bind (generateIR argument g) (\<lambda>argTemp g1.
       let (resultTemp, g2) = createTemp g1
       in case unary_operation operator of
            Some operation \<Rightarrow> Inr (resultTemp, emit operation [VStr argTemp, VStr resultTemp] g2)
          | None \<Rightarrow>
              Inl (IRGenerationError (''Unknown unary operator: '' @ operator)
                     (UnaryExpression operator argument)))"
| "generateIR (LogicalExpression operator left right) g =
     (let (resultTemp, g1) = createTemp g in
      if operator = ''&&'' \<or> operator = ''||'' then
        g_bind (generateIR left g1) (\<lambda>leftTemp g2.
          let (skipLabel, g3) = createLabel (if operator = ''&&'' then ''and_skip'' else ''or_skip'') g2;
              g4 = emit ''COPY'' [VStr leftTemp, VStr resultTemp] g3;
              g5 = emit (if operator = ''&&'' then ''JUMP_IF_FALSE'' else ''JUMP_IF_TRUE'')
                     [VStr leftTemp, VStr skipLabel] g4
          in g_bind (generateIR right g5) (\<lambda>rightTemp g6.
               Inr (resultTemp,
                    emit ''LABEL'' [VStr skipLabel]
                      (emit ''COPY'' [VStr rightTemp, VStr resultTemp] g6))))
      else Inl (IRGenerationError (''Unknown logical operator: '' @ operator)
                  (LogicalExpression operator left right)))"
| "generateIR (AssignmentExpression operator left right) g =
     g_bind (generateIR right g) (\<lambda>rightTemp g1.
       case left of
         Identifier varName \<Rightarrow> Inr (rightTemp, emit ''STORE'' [VStr rightTemp, VStr varName] g1)
       | MemberExpression object property \<Rightarrow>
           g_bind (generateIR object g1) (\<lambda>objectTemp g2.
             Inr (rightTemp,
                  emit ''STORE_PROP'' [VStr objectTemp, node_name property, VStr rightTemp] g2))
       | _ \<Rightarrow> Inl (IRGenerationError ''Invalid assignment target''
                     (AssignmentExpression operator left right)))"
| "generateIR (CallExpression callee arguments) g =
     g_bind (generate_each arguments g) (\<lambda>as g1.
       let (resultTemp, g2) = createTemp g1
       in case callee of
            Identifier funcName \<Rightarrow>
              Inr (resultTemp,
                   emit ''CALL'' [VStr funcName, VArr (map VStr as), VStr resultTemp] g2)
          | _ \<Rightarrow>
              g_bind (generateIR callee g2) (\<lambda>calleeTemp g3.
                Inr (resultTemp,
                     emit ''CALL_INDIRECT'' [VStr calleeTemp, VArr (map VStr as), VStr resultTemp] g3)))"
| "generateIR (MemberExpression object property) g =
     g_bind (generateIR object g) (\<lambda>objectTemp g1.
       let (resultTemp, g2) = createTemp g1
       in Inr (resultTemp,
               emit ''LOAD_PROP'' [VStr objectTemp, node_name property, VStr resultTemp] g2))"
| "generateIR (Identifier name) g =
     (let (resultTemp, g1) = createTemp g
      in Inr (resultTemp, emit ''LOAD'' [VStr name, VStr resultTemp] g1))"
| "generateIR (Literal v) g =
     (let (resultTemp, g1) = createTemp g
      in Inr (resultTemp, emit ''CONST'' [v, VStr resultTemp] g1))"
| "generateIR (GroupExpression e) g = generateIR e g"

text \<open>\<open>generate\<close> starts from an empty instruction list and counters at zero.\<close>

definition generate :: "'n node \<Rightarrow> 'n IRGenerationError + 'n IRInstruction list" where
  "generate ast =
     (case generateIR ast \<lparr>instructions = [], tempCounter = 0, labelCounter = 0\<rparr> of
        Inl e \<Rightarrow> Inl e
      | Inr (t, g) \<Rightarrow> Inr (instructions g))"

section \<open>Optimizer\<close>

text \<open>
  Every pass maps an instruction list to a new list and a flag \<open>changed\<close>. The loops of
  the passes are recursive functions that carry the loop's variables. The \<open>Map\<close> and
  \<open>Set\<close> objects of the passes become maps and sets of the logic, keyed by operand
  values.
\<close>

definition startsWith_t :: "string \<Rightarrow> bool" where
  "startsWith_t s = (case s of [] \<Rightarrow> False | c # _ \<Rightarrow> c = CHR ''t'')"

text \<open>
  \<open>findPreviousConstInstr(ir, currentIndex, tempVar)\<close> scans from \<open>currentIndex - 1\<close>
  down to 0; the recursion is on \<open>currentIndex\<close>.
\<close>

fun findPreviousConstInstr ::
  "'n runtime \<Rightarrow> 'n IRInstruction list \<Rightarrow> nat \<Rightarrow> 'n val \<Rightarrow> 'n IRInstruction option" where
  "findPreviousConstInstr rt ir 0 tempVar = None"
| "findPreviousConstInstr rt ir (Suc i) tempVar =
     (let instr = ir ! i in
      if op instr = ''CONST'' \<and> strict_eq rt (arg instr 1) tempVar then Some instr
      else findPreviousConstInstr rt ir i tempVar)"

definition binary_ops :: "string list" where
  "binary_ops = [''ADD'', ''SUB'', ''MUL'', ''DIV'', ''EQ'', ''NEQ'', ''LT'', ''LTE'', ''GT'', ''GTE'']"

definition fold_binary :: "'n runtime \<Rightarrow> string \<Rightarrow> 'n \<Rightarrow> 'n \<Rightarrow> 'n val" where
  "fold_binary rt opc val1 val2 =
     (if opc = ''ADD'' then VNum (num_add rt val1 val2)
      else if opc = ''SUB'' then VNum (num_sub rt val1 val2)
      else if opc = ''MUL'' then VNum (num_mul rt val1 val2)
      else if opc = ''DIV'' then VNum (num_div rt val1 val2)
      else if opc = ''EQ'' then VBool (num_eq rt val1 val2)
      else if opc = ''NEQ'' then VBool (\<not> num_eq rt val1 val2)
      else if opc = ''LT'' then VBool (num_lt rt val1 val2)
      else if opc = ''LTE'' then VBool (num_le rt val1 val2)
      else if opc = ''GT'' then VBool (num_lt rt val2 val1)
      else if opc = ''GTE'' then VBool (num_le rt val2 val1)
      else VUndef)"

definition fold_unary :: "'n runtime \<Rightarrow> string \<Rightarrow> 'n val \<Rightarrow> 'n val option" where
  "fold_unary rt opc v =
     (case v of
        VNum n \<Rightarrow> Some (if opc = ''NEG'' then VNum (num_neg rt n)
                         else if opc = ''NOT'' then VBool (\<not> num_truthy rt n) else VUndef)
      | VBool b \<Rightarrow> Some (if opc = ''NEG'' then VNum (num_neg rt (num_of_bool rt b))
                         else if opc = ''NOT'' then VBool (\<not> b) else VUndef)
      | _ \<Rightarrow> None)"

text \<open>
  The body of the loop of \<open>constantFolding\<close> at index \<open>i\<close>: \<open>Some c\<close> when the
  instruction is replaced by the \<open>CONST\<close> instruction \<open>c\<close>, \<open>None\<close> when it is kept.
\<close>

definition fold_instr :: "'n runtime \<Rightarrow> 'n IRInstruction list \<Rightarrow> nat \<Rightarrow> 'n IRInstruction option" where
  "fold_instr rt ir i =
     (let instr = ir ! i;
          bin =
            (if op instr \<in> set binary_ops then
               (case (findPreviousConstInstr rt ir i (arg instr 0),
                      findPreviousConstInstr rt ir i (arg instr 1)) of
                  (Some prevInstr1, Some prevInstr2) \<Rightarrow>
                    (case (arg prevInstr1 0, arg prevInstr2 0) of
                       (VNum val1, VNum val2) \<Rightarrow>
                         Some \<lparr>op = ''CONST'', args = [fold_binary rt (op instr) val1 val2, arg instr 2]\<rparr>
                     | _ \<Rightarrow> None)
                | _ \<Rightarrow> None)
             else None)
      in case bin of
           Some c \<Rightarrow> Some c
         | None \<Rightarrow>
            (if op instr \<in> set [''NEG'', ''NOT''] then
               (case findPreviousConstInstr rt ir i (arg instr 0) of
                  Some prevInstr \<Rightarrow>
                    (case fold_unary rt (op instr) (arg prevInstr 0) of
                       Some resultVal \<Rightarrow> Some \<lparr>op = ''CONST'', args = [resultVal, arg instr 1]\<rparr>
                     | None \<Rightarrow> None)
                | None \<Rightarrow> None)
             else None))"

function constantFolding_loop ::
  "'n runtime \<Rightarrow> 'n IRInstruction list \<Rightarrow> nat \<Rightarrow> 'n IRInstruction list \<Rightarrow> bool
     \<Rightarrow> 'n IRInstruction list \<times> bool" where
  "constantFolding_loop rt ir i result changed =
     (if i < length ir then
        (case fold_instr rt ir i of
           Some c \<Rightarrow> constantFolding_loop rt ir (i + 1) (result @ [c]) True
         | None \<Rightarrow> constantFolding_loop rt ir (i + 1) (result @ [ir ! i]) changed)
      else (result, changed))"
  by pat_completeness auto
termination
  by (relation "measure (\<lambda>(rt, ir, i, result, changed). length ir - i)") auto

declare constantFolding_loop.simps [simp del]

definition constantFolding ::
  "'n runtime \<Rightarrow> 'n IRInstruction list \<Rightarrow> 'n IRInstruction list \<times> bool" where
  "constantFolding rt ir = constantFolding_loop rt ir 0 [] False"

text \<open>
  The three loops of \<open>deadCodeElimination\<close>: the jump targets, the used names (string
  operands that start with \<open>t\<close>, of instructions other than \<open>STORE\<close> and \<open>CONST\<close>),
  and the filter.
\<close>

fun collect_jumps :: "'n IRInstruction list \<Rightarrow> 'n val set \<Rightarrow> 'n val set" where
  "collect_jumps [] jumps = jumps"
| "collect_jumps (instr # rest) jumps =
     (if op instr = ''LABEL'' then collect_jumps rest jumps
      else if op instr \<in> set [''JUMP'', ''JUMP_IF_TRUE'', ''JUMP_IF_FALSE''] then
        collect_jumps rest (insert (arg instr (if op instr = ''JUMP'' then 0 else 1)) jumps)
      else collect_jumps rest jumps)"

fun mark_args :: "'n val list \<Rightarrow> string set \<Rightarrow> string set" where
  "mark_args [] usedVars = usedVars"
| "mark_args (a # rest) usedVars =
     (case a of
        VStr s \<Rightarrow> mark_args rest (if startsWith_t s then insert s usedVars else usedVars)
      | _ \<Rightarrow> mark_args rest usedVars)"

fun mark_used :: "'n IRInstruction list \<Rightarrow> string set \<Rightarrow> string set" where
  "mark_used [] usedVars = usedVars"
| "mark_used (instr # rest) usedVars =
     (if op instr \<noteq> ''STORE'' \<and> op instr \<noteq> ''CONST''
      then mark_used rest (mark_args (args instr) usedVars)
      else mark_used rest usedVars)"

definition dead_store :: "string set \<Rightarrow> 'n IRInstruction \<Rightarrow> bool" where
  "dead_store usedVars instr =
     ((op instr = ''STORE'' \<or> op instr = ''CONST'') \<and>
      (case arg instr 1 of VStr target \<Rightarrow> startsWith_t target \<and> target \<notin> usedVars | _ \<Rightarrow> False))"

definition dead_label :: "'n val set \<Rightarrow> 'n IRInstruction \<Rightarrow> bool" where
  "dead_label jumps instr = (op instr = ''LABEL'' \<and> arg instr 0 \<notin> jumps)"

fun remove_dead ::
  "string set \<Rightarrow> 'n val set \<Rightarrow> 'n IRInstruction list \<Rightarrow> 'n IRInstruction list \<Rightarrow> bool
     \<Rightarrow> 'n IRInstruction list \<times> bool" where
  "remove_dead usedVars jumps [] result changed = (result, changed)"
| "remove_dead usedVars jumps (instr # rest) result changed =
     (if dead_store usedVars instr then remove_dead usedVars jumps rest result True
      else if dead_label jumps instr then remove_dead usedVars jumps rest result True
      else remove_dead usedVars jumps rest (result @ [instr]) changed)"

definition deadCodeElimination :: "'n IRInstruction list \<Rightarrow> 'n IRInstruction list \<times> bool" where
  "deadCodeElimination ir =
     (let jumps = collect_jumps ir {};
          usedVars = mark_used ir {}
      in remove_dead usedVars jumps ir [] False)"

text \<open>
  \<open>constantPropagation\<close>: \<open>is_known\<close> is the test \<open>typeof arg === 'string' &&
  constants.has(arg)\<close>; \<open>track_constants\<close> is the update of the map for one instruction,
  and \<open>propagate_instr\<close> the body of the loop, which returns the new map, the instruction
  it appends and whether it changed anything.
\<close>

definition is_known :: "('n val \<rightharpoonup> 'n val) \<Rightarrow> 'n val \<Rightarrow> bool" where
  "is_known constants a = (case a of VStr s \<Rightarrow> constants a \<noteq> None | _ \<Rightarrow> False)"

definition substitute :: "('n val \<rightharpoonup> 'n val) \<Rightarrow> 'n val \<Rightarrow> 'n val" where
  "substitute constants a = (if is_known constants a then the (constants a) else a)"

definition track_constants ::
  "('n val \<rightharpoonup> 'n val) \<Rightarrow> 'n IRInstruction \<Rightarrow> ('n val \<rightharpoonup> 'n val)" where
  "track_constants constants instr =
     (if op instr = ''CONST'' then constants(arg instr 1 \<mapsto> arg instr 0)
      else if op instr = ''STORE'' then
        (if is_known constants (arg instr 0)
         then constants(arg instr 1 \<mapsto> the (constants (arg instr 0)))
         else constants(arg instr 1 := None))
      else if op instr \<in> set [''BLOCK_START'', ''FUNCTION_START''] then Map.empty
      else constants)"

definition propagate_instr ::
  "('n val \<rightharpoonup> 'n val) \<Rightarrow> 'n IRInstruction
     \<Rightarrow> ('n val \<rightharpoonup> 'n val) \<times> 'n IRInstruction \<times> bool" where
  "propagate_instr constants instr =
     (if op instr = ''LOAD'' \<and> constants (arg instr 0) \<noteq> None then
        (constants, \<lparr>op = ''CONST'', args = [the (constants (arg instr 0)), arg instr 1]\<rparr>, True)
      else
        (let constants' = track_constants constants instr;
             instrChanged = (\<exists>a \<in> set (args instr). is_known constants' a);
             newArgs = map (substitute constants') (args instr)
         in if instrChanged then (constants', \<lparr>op = op instr, args = newArgs\<rparr>, True)
            else (constants', instr, False)))"

fun constantPropagation_loop ::
  "'n IRInstruction list \<Rightarrow> ('n val \<rightharpoonup> 'n val) \<Rightarrow> 'n IRInstruction list \<Rightarrow> bool
     \<Rightarrow> 'n IRInstruction list \<times> bool" where
  "constantPropagation_loop [] constants result changed = (result, changed)"
| "constantPropagation_loop (instr # rest) constants result changed =
     (case propagate_instr constants instr of
        (constants', out, instrChanged) \<Rightarrow>
          constantPropagation_loop rest constants' (result @ [out]) (instrChanged \<or> changed))"

definition constantPropagation :: "'n IRInstruction list \<Rightarrow> 'n IRInstruction list \<times> bool" where
  "constantPropagation ir = constantPropagation_loop ir Map.empty [] False"

text \<open>\<open>commonSubexpressionElimination\<close>, keyed by the string \<open>op(arg0,arg1)\<close>.\<close>

definition expr_key :: "'n runtime \<Rightarrow> 'n IRInstruction \<Rightarrow> string" where
  "expr_key rt instr =
     op instr @ ''('' @ toStr rt (arg instr 0) @ '','' @ toStr rt (arg instr 1) @ '')''"

fun commonSubexpressionElimination_loop ::
  "'n runtime \<Rightarrow> 'n IRInstruction list \<Rightarrow> (string \<rightharpoonup> 'n val) \<Rightarrow> 'n IRInstruction list \<Rightarrow> bool
     \<Rightarrow> 'n IRInstruction list \<times> bool" where
  "commonSubexpressionElimination_loop rt [] expressions result changed = (result, changed)"
| "commonSubexpressionElimination_loop rt (instr # rest) expressions result changed =
     (if op instr \<in> set binary_ops then
        (case expressions (expr_key rt instr) of
           Some prev \<Rightarrow>
             commonSubexpressionElimination_loop rt rest expressions
               (result @ [\<lparr>op = ''COPY'', args = [prev, arg instr 2]\<rparr>]) True
         | None \<Rightarrow>
             commonSubexpressionElimination_loop rt rest
               (expressions(expr_key rt instr \<mapsto> arg instr 2)) (result @ [instr]) changed)
      else if op instr \<in> set [''STORE'', ''CALL'', ''FUNCTION_START'', ''BLOCK_START''] then
        commonSubexpressionElimination_loop rt rest Map.empty (result @ [instr]) changed
      else commonSubexpressionElimination_loop rt rest expressions (result @ [instr]) changed)"

definition commonSubexpressionElimination ::
  "'n runtime \<Rightarrow> 'n IRInstruction list \<Rightarrow> 'n IRInstruction list \<times> bool" where
  "commonSubexpressionElimination rt ir = commonSubexpressionElimination_loop rt ir Map.empty [] False"

text \<open>
  \<open>optimize\<close>: one round applies the four passes in order and takes over the list of
  each pass that reports a change; the loop repeats the round while any pass did.
\<close>

definition run_pass ::
  "('n IRInstruction list \<Rightarrow> 'n IRInstruction list \<times> bool)
     \<Rightarrow> 'n IRInstruction list \<times> bool \<Rightarrow> 'n IRInstruction list \<times> bool" where
  "run_pass pass acc =
     (case acc of (optimized, changed) \<Rightarrow>
        (case pass optimized of (ir', passChanged) \<Rightarrow>
           if passChanged then (ir', True) else (optimized, changed)))"

definition passes ::
  "'n runtime \<Rightarrow> ('n IRInstruction list \<Rightarrow> 'n IRInstruction list \<times> bool) list" where
  "passes rt =
     [constantFolding rt, deadCodeElimination, constantPropagation, commonSubexpressionElimination rt]"

definition optimize_round ::
  "'n runtime \<Rightarrow> 'n IRInstruction list \<Rightarrow> 'n IRInstruction list \<times> bool" where
  "optimize_round rt optimized = fold run_pass (passes rt) (optimized, False)"

partial_function (option) optimize_loop ::
  "'n runtime \<Rightarrow> 'n IRInstruction list \<Rightarrow> 'n IRInstruction list option" where
  "optimize_loop rt optimized =
     (case optimize_round rt optimized of (optimized', changed) \<Rightarrow>
        if changed then optimize_loop rt optimized' else Some optimized')"

definition optimize :: "'n runtime \<Rightarrow> 'n IRInstruction list \<Rightarrow> 'n IRInstruction list option" where
  "optimize rt ir = optimize_loop rt ir"

section \<open>Code generator\<close>

text \<open>
  The generator appends lines to \<open>output\<close> (here \<open>out_lines\<close>) and tracks \<open>indentLevel\<close> (its \<open>variables\<close>
  map is cleared and never read). Two operations of the runtime can throw here:
  \<open>"  ".repeat(k)\<close> with negative \<open>k\<close> is a \<open>RangeError\<close>, and \<open>.join\<close> on an operand
  that is not an array is a \<open>TypeError\<close>.
\<close>

record CodeGenerator =
  out_lines :: "string list"
  indentLevel :: int

datatype 'n CodeGenError =
    CodeGenerationError string "'n IRInstruction"
  | CodeGenTypeError
  | CodeGenRangeError

definition emitLine ::
  "string \<Rightarrow> int \<Rightarrow> CodeGenerator \<Rightarrow> 'n CodeGenError + CodeGenerator" where
  "emitLine txt extraIndent cg =
     (if indentLevel cg + extraIndent < 0 then Inl CodeGenRangeError
      else Inr (cg\<lparr>out_lines := out_lines cg @
                  [concat (replicate (nat (indentLevel cg + extraIndent)) ''  '') @ txt]\<rparr>))"

definition join_operand :: "'n runtime \<Rightarrow> 'n val \<Rightarrow> 'n CodeGenError + string" where
  "join_operand rt v =
     (case v of
        VArr xs \<Rightarrow>
          Inr (join '', '' (map (\<lambda>x. if x = VNull \<or> x = VUndef then [] else toStr rt x) xs))
      | _ \<Rightarrow> Inl CodeGenTypeError)"

definition formatValue :: "'n runtime \<Rightarrow> 'n val \<Rightarrow> string" where
  "formatValue rt v =
     (case v of
        VNull \<Rightarrow> ''null''
      | VUndef \<Rightarrow> ''undefined''
      | VStr s \<Rightarrow> [CHR 0x22] @ s @ [CHR 0x22]
      | _ \<Rightarrow> toStr rt v)"

text \<open>The lines of the infix instructions: \<open>let dst = a op b;\<close>.\<close>

definition infix_symbol :: "string \<Rightarrow> string option" where
  "infix_symbol opc =
     (if opc = ''ADD'' then Some ''+''
      else if opc = ''SUB'' then Some ''-''
      else if opc = ''MUL'' then Some ''*''
      else if opc = ''DIV'' then Some ''/''
      else if opc = ''EQ'' then Some ''===''
      else if opc = ''NEQ'' then Some ''!==''
      else if opc = ''LT'' then Some ''<''
      else if opc = ''LTE'' then Some ''<=''
      else if opc = ''GT'' then Some ''>''
      else if opc = ''GTE'' then Some ''>=''
      else None)"

definition call_line :: "'n runtime \<Rightarrow> 'n IRInstruction \<Rightarrow> 'n CodeGenError + string" where
  "call_line rt instr =
     (case join_operand rt (arg instr 1) of
        Inl e \<Rightarrow> Inl e
      | Inr joined \<Rightarrow>
          if truthy rt (arg instr 2)
          then Inr (''let '' @ toStr rt (arg instr 2) @ '' = '' @ toStr rt (arg instr 0)
                      @ ''('' @ joined @ '');'')
          else Inr (toStr rt (arg instr 0) @ ''('' @ joined @ '');''))"

definition processInstruction ::
  "'n runtime \<Rightarrow> 'n IRInstruction \<Rightarrow> CodeGenerator \<Rightarrow> 'n CodeGenError + CodeGenerator" where
  "processInstruction rt instr cg =
     (let a0 = toStr rt (arg instr 0); a1 = toStr rt (arg instr 1); a2 = toStr rt (arg instr 2) in
      if op instr = ''FUNCTION_START'' then
        (case join_operand rt (arg instr 1) of
           Inl e \<Rightarrow> Inl e
         | Inr joined \<Rightarrow>
             (case emitLine (''function '' @ a0 @ ''('' @ joined @ '') {'') 0 cg of
                Inl e \<Rightarrow> Inl e
              | Inr cg1 \<Rightarrow> Inr (cg1\<lparr>indentLevel := indentLevel cg1 + 1\<rparr>)))
      else if op instr = ''FUNCTION_END'' then
        (case emitLine ''}'' 0 (cg\<lparr>indentLevel := indentLevel cg - 1\<rparr>) of
           Inl e \<Rightarrow> Inl e
         | Inr cg1 \<Rightarrow> emitLine [] 0 cg1)
      else if op instr = ''BLOCK_START'' then
        (case emitLine ''{'' 0 cg of
           Inl e \<Rightarrow> Inl e
         | Inr cg1 \<Rightarrow> Inr (cg1\<lparr>indentLevel := indentLevel cg1 + 1\<rparr>))
      else if op instr = ''BLOCK_END'' then
        emitLine ''}'' 0 (cg\<lparr>indentLevel := indentLevel cg - 1\<rparr>)
      else if op instr = ''DECLARE'' then emitLine (''let '' @ a0 @ '';'') 0 cg
      else if op instr = ''CONST'' then
        emitLine (''let '' @ a1 @ '' = '' @ formatValue rt (arg instr 0) @ '';'') 0 cg
      else if op instr = ''LOAD'' then emitLine (''let '' @ a1 @ '' = '' @ a0 @ '';'') 0 cg
      else if op instr = ''STORE'' then emitLine (a1 @ '' = '' @ a0 @ '';'') 0 cg
      else if op instr = ''LOAD_PROP'' then
        emitLine (''let '' @ a2 @ '' = '' @ a0 @ ''.'' @ a1 @ '';'') 0 cg
      else if op instr = ''STORE_PROP'' then emitLine (a0 @ ''.'' @ a1 @ '' = '' @ a2 @ '';'') 0 cg
      else if infix_symbol (op instr) \<noteq> None then
        emitLine (''let '' @ a2 @ '' = '' @ a0 @ '' '' @ the (infix_symbol (op instr)) @ '' '' @ a1 @ '';'')
          0 cg
      else if op instr = ''NEG'' then emitLine (''let '' @ a1 @ '' = -'' @ a0 @ '';'') 0 cg
      else if op instr = ''NOT'' then emitLine (''let '' @ a1 @ '' = !'' @ a0 @ '';'') 0 cg
      else if op instr = ''COPY'' then emitLine (''let '' @ a1 @ '' = '' @ a0 @ '';'') 0 cg
      else if op instr = ''LABEL'' then emitLine (a0 @ '':'') 0 cg
      else if op instr = ''JUMP'' then emitLine (''goto '' @ a0 @ '';'') 0 cg
      else if op instr = ''JUMP_IF_TRUE'' then
        emitLine (''if ('' @ a0 @ '') goto '' @ a1 @ '';'') 0 cg
      else if op instr = ''JUMP_IF_FALSE'' then
        emitLine (''if (!'' @ a0 @ '') goto '' @ a1 @ '';'') 0 cg
      else if op instr = ''CALL'' \<or> op instr = ''CALL_INDIRECT'' then
        (case call_line rt instr of Inl e \<Rightarrow> Inl e | Inr txt \<Rightarrow> emitLine txt 0 cg)
      else if op instr = ''RETURN'' then
        (if length (args instr) > 0 then emitLine (''return '' @ a0 @ '';'') 0 cg
         else emitLine ''return;'' 0 cg)
      else Inl (CodeGenerationError (''Unknown instruction: '' @ op instr) instr))"

fun process_all ::
  "'n runtime \<Rightarrow> 'n IRInstruction list \<Rightarrow> CodeGenerator \<Rightarrow> 'n CodeGenError + CodeGenerator" where
  "process_all rt [] cg = Inr cg"
| "process_all rt (instr # rest) cg =
     (case processInstruction rt instr cg of
        Inl e \<Rightarrow> Inl e
      | Inr cg1 \<Rightarrow> process_all rt rest cg1)"

definition preamble :: CodeGenerator where
  "preamble =
     \<lparr>out_lines =
        [''// Generated JavaScript code'',
         ''// This is a simplified target language'',
         [],
         ''// Runtime functions'',
         ''function printValue(value) {'',
         ''    console.log(value);'',
         ''}'',
         []],
      indentLevel = 0\<rparr>"

definition generate_code :: "'n runtime \<Rightarrow> 'n IRInstruction list \<Rightarrow> 'n CodeGenError + string" where
  "generate_code rt ir =
     (case process_all rt ir preamble of
        Inl e \<Rightarrow> Inl e
      | Inr cg \<Rightarrow> Inr (join [CHR 0x0A] (out_lines cg)))"

section \<open>Compiler\<close>

record Diagnostic =
  phase :: string
  message :: string
  at_line :: "int option"
  at_column :: "int option"

record 'n CompilationResult =
  success :: bool
  tokens :: "Token list option"
  ast :: "'n node option"
  ir :: "'n IRInstruction list option"
  optimizedIr :: "'n IRInstruction list option"
  code :: "string option"
  errors :: "Diagnostic list"

text \<open>
  A \<open>Compiler\<close> object creates its analyzer, generators and optimizer once, in the
  constructor, and a lexer and a parser anew in every \<open>compile\<close>. The generators reset
  their fields when they start and the optimizer has none, so the analyzer is the only
  state that one call of \<open>compile\<close> leaves to the next.
\<close>

record 'n Compiler =
  semanticAnalyzer :: "'n SemanticAnalyzer"

definition new_Compiler :: "'n Compiler" where
  "new_Compiler = \<lparr>semanticAnalyzer = new_SemanticAnalyzer\<rparr>"

definition failure ::
  "Token list option \<Rightarrow> 'n node option \<Rightarrow> 'n IRInstruction list option
     \<Rightarrow> 'n IRInstruction list option \<Rightarrow> Diagnostic list \<Rightarrow> 'n CompilationResult" where
  "failure toks tree ir0 opt ds =
     \<lparr>success = False, tokens = toks, ast = tree, ir = ir0, optimizedIr = opt, code = None,
      errors = ds\<rparr>"

definition semantic_diagnostic :: "'n SemanticError \<Rightarrow> Diagnostic" where
  "semantic_diagnostic e =
     \<lparr>phase = ''Semantic Analysis'', message = error_message e, at_line = None, at_column = None\<rparr>"

text \<open>
  \<open>compile\<close>. The result is \<open>None\<close> when the call does not return: the optimizer's loop
  runs forever (or, in the model only, the parser's fuel is too small).
\<close>

definition compile ::
  "'n runtime \<Rightarrow> nat \<Rightarrow> 'n Compiler \<Rightarrow> string \<Rightarrow> ('n CompilationResult \<times> 'n Compiler) option" where
  "compile rt fuel c src =
     (case tokenize src of
        Inl (LexicalError m l col) \<Rightarrow>
          Some (failure None None None None
                  [\<lparr>phase = ''Lexical Analysis'', message = m, at_line = Some l, at_column = Some col\<rparr>],
                c)
      | Inr toks \<Rightarrow>
     (case parse fuel rt toks of
        None \<Rightarrow> None
      | Some (Inl (SyntaxError m tok)) \<Rightarrow>
          Some (failure (Some toks) None None None
                  [\<lparr>phase = ''Syntax Analysis'', message = m,
                    at_line = Some (tok_line tok), at_column = Some (tok_column tok)\<rparr>],
                c)
      | Some (Inl ParserTypeError) \<Rightarrow>
          Some (failure (Some toks) None None None
                  [\<lparr>phase = ''Unknown'', message = type_error_message rt,
                    at_line = None, at_column = None\<rparr>],
                c)
      | Some (Inr tree) \<Rightarrow>
     (case analyze (semanticAnalyzer c) tree of (semanticErrors, analyzer') \<Rightarrow>
     (let c' = c\<lparr>semanticAnalyzer := analyzer'\<rparr> in
      if length semanticErrors > 0 then
        Some (failure (Some toks) (Some tree) None None (map semantic_diagnostic semanticErrors), c')
      else
     (case generate tree of
        Inl (IRGenerationError m node) \<Rightarrow>
          Some (failure (Some toks) (Some tree) None None
                  [\<lparr>phase = ''IR Generation'', message = m, at_line = None, at_column = None\<rparr>],
                c')
      | Inr ir0 \<Rightarrow>
     (case optimize rt ir0 of
        None \<Rightarrow> None
      | Some opt \<Rightarrow>
     (case generate_code rt opt of
        Inl e \<Rightarrow>
          Some (failure (Some toks) (Some tree) (Some ir0) (Some opt)
                  [case e of
                     CodeGenerationError m instr \<Rightarrow>
                       \<lparr>phase = ''Code Generation'', message = m, at_line = None, at_column = None\<rparr>
                   | CodeGenTypeError \<Rightarrow>
                       \<lparr>phase = ''Unknown'', message = type_error_message rt,
                        at_line = None, at_column = None\<rparr>
                   | CodeGenRangeError \<Rightarrow>
                       \<lparr>phase = ''Unknown'', message = range_error_message rt,
                        at_line = None, at_column = None\<rparr>],
                c')
      | Inr text \<Rightarrow>
          Some (\<lparr>success = True, tokens = Some toks, ast = Some tree, ir = Some ir0,
                 optimizedIr = Some opt, code = Some text, errors = []\<rparr>, c'))))))))"

text \<open>The fuel bounds the parser's recursion only: a result of \<open>compile\<close> stays with more.\<close>

lemma compile_mono:
  assumes "compile rt n c src = Some r" and "n \<le> m"
  shows "compile rt m c src = Some r"
proof (cases "tokenize src")
  case (Inl e)
  with assms(1) show ?thesis by (simp add: compile_def)
next
  case (Inr toks)
  with assms(1) obtain p where p: "parse n rt toks = Some p"
    by (auto simp: compile_def split: option.splits)
  from parse_mono [OF p assms(2)] have "parse m rt toks = Some p" .
  with p Inr assms(1) show ?thesis by (simp add: compile_def)
qed

section \<open>An instance of the runtime for closed examples\<close>

text \<open>
  The examples below need concrete numbers. \<open>ideal\<close> computes with exact rationals: it
  agrees with IEEE doubles on the small integers the examples use, it has no infinities or
  NaN (a division by zero, which no example performs, gives 0 here), and it prints
  integers in decimal and other numbers as a fraction. The general theorems do not
  mention it.
\<close>

fun digits_value :: "string \<Rightarrow> nat \<Rightarrow> nat" where
  "digits_value [] acc = acc"
| "digits_value (c # cs) acc = digits_value cs (acc * 10 + (of_char c - 48))"

definition ideal_parseFloat :: "string \<Rightarrow> rat" where
  "ideal_parseFloat s =
     (let whole = takeWhile (\<lambda>c. c \<noteq> CHR ''.'') s;
          frac = drop (length whole + 1) s
      in of_nat (digits_value whole 0) + of_nat (digits_value frac 0) / 10 ^ length frac)"

definition ideal_toString :: "rat \<Rightarrow> string" where
  "ideal_toString q =
     (let (n, d) = quotient_of q;
          sign = (if n < 0 then ''-'' else [])
      in if d = 1 then sign @ nat_toString (nat \<bar>n\<bar>)
         else sign @ nat_toString (nat \<bar>n\<bar>) @ ''/'' @ nat_toString (nat d))"

definition ideal :: "rat runtime" where
  "ideal =
     \<lparr>parseFloat = ideal_parseFloat,
      num_add = (+), num_sub = (-), num_mul = (*), num_div = (/),
      num_eq = (=), num_lt = (<), num_le = (\<le>),
      num_neg = uminus, num_of_bool = of_bool, num_truthy = (\<lambda>q. q \<noteq> 0),
      num_toString = ideal_toString,
      type_error_message = ''TypeError'', range_error_message = ''RangeError''\<rparr>"

section \<open>Notions used in the statements\<close>

text \<open>\<open>Tok\<close> and \<open>Ins\<close> write a token and an instruction in one line.\<close>

definition Tok :: "string \<Rightarrow> string \<Rightarrow> int \<Rightarrow> int \<Rightarrow> Token" where
  "Tok ty v l c = \<lparr>tok_type = ty, tok_value = v, tok_line = l, tok_column = c\<rparr>"

definition Ins :: "string \<Rightarrow> 'n val list \<Rightarrow> 'n IRInstruction" where
  "Ins opc as = \<lparr>op = opc, args = as\<rparr>"

text \<open>The type of the token the lexer emits for \<open>==\<close>, \<open>!=\<close>, \<open><=\<close> and \<open>>=\<close>, by first character.\<close>

definition two_char_type :: "char \<Rightarrow> string" where
  "two_char_type c =
     (if c = CHR ''='' then ''EQUAL_EQUAL''
      else if c = CHR ''!'' then ''BANG_EQUAL''
      else if c = CHR ''<'' then ''LESS_EQUAL''
      else ''GREATER_EQUAL'')"

text \<open>
  The map of known constants when the loop of constant propagation reaches index \<open>i\<close>,
  and the test whether a value is a string.
\<close>

definition constants_before :: "'n IRInstruction list \<Rightarrow> nat \<Rightarrow> ('n val \<rightharpoonup> 'n val)" where
  "constants_before prog i =
     fold (\<lambda>instr constants. fst (propagate_instr constants instr)) (take i prog) Map.empty"

fun is_string :: "'n val \<Rightarrow> bool" where
  "is_string (VStr s) = True"
| "is_string other = False"

text \<open>
  The error the analyzer reports for the second declaration in \<open>var x; var x;\<close>, and the
  analyzer a new compiler holds after it has compiled \<open>var x = 1;\<close>.
\<close>

definition duplicate_error :: "'n SemanticError" where
  "duplicate_error =
     SemanticError (''Variable '' @ quoted ''x'' @ '' already declared in this scope'')
       (VariableDeclaration ''x'' None)"

definition analyzer_after_declaration :: "'n SemanticAnalyzer" where
  "analyzer_after_declaration =
     \<lparr>scopes = [[]],
      currentScope = [(''x'', \<lparr>sym_type = ''variable'', initialized = True, used = False\<rparr>)],
      sem_errors = []\<rparr>"

section \<open>Evaluation of the definitions\<close>

text \<open>The equations by which the simplifier runs each phase on a concrete input.\<close>

lemmas parse_eval = parse_def program_def p_bind_def p_return_def p_throw_def out_of_fuel_def
  p_isAtEnd_def p_peek_def p_previous_def p_check_def p_advance_def p_consume_def
  primary_def finishCall_def call_def factor_def term_expr_def comparison_def equality_def
  logicalAnd_def logicalOr_def varDeclaration_def functionDeclaration_def expressionStatement_def
  ifStatement_def whileStatement_def forStatement_def returnStatement_def block_def
  try_synchronize_def synchronize_def synchronize_loop.simps Tok_def

lemmas analyze_eval = analyze_def new_SemanticAnalyzer_def enterScope_def exitScope_def
  push_error_def quoted_def lookupVariable_def update_variable_def declare_name_def
  add_parameter_def check_parameters_def visitIdentifier_def assign_target_def call_target_def

lemmas generate_eval = generate_def g_bind_def emit_def createTemp_def createLabel_def
  binary_operation_def unary_operation_def nat_toString.simps digit_char_def Ins_def

lemmas optimize_eval = optimize_round_def passes_def run_pass_def
  constantFolding_def constantFolding_loop.simps fold_instr_def fold_binary_def fold_unary_def
  binary_ops_def arg_def startsWith_t_def deadCodeElimination_def dead_store_def dead_label_def
  constantPropagation_def propagate_instr_def track_constants_def is_known_def substitute_def
  commonSubexpressionElimination_def expr_key_def Ins_def

lemmas codegen_eval = generate_code_def preamble_def processInstruction_def emitLine_def
  join_operand_def formatValue_def infix_symbol_def call_line_def arg_def Ins_def

section \<open>The optimizer's loop\<close>

text \<open>
  A pass that reports no change leaves the accumulated list alone, so a round that ends
  with \<open>changed = False\<close> returns the list it started from.
\<close>

lemma run_pass_unchanged:
  "run_pass pass (optimized, changed) = (optimized', False) \<Longrightarrow> optimized' = optimized \<and> \<not> changed"
  by (auto simp: run_pass_def split: prod.splits if_splits)

lemma fold_run_pass_unchanged:
  "fold run_pass ps (optimized, changed) = (optimized', False) \<Longrightarrow> optimized' = optimized \<and> \<not> changed"
proof (induction ps arbitrary: optimized changed)
  case Nil
  then show ?case by simp
next
  case (Cons p ps)
  obtain o1 c1 where step: "run_pass p (optimized, changed) = (o1, c1)"
    by (cases "run_pass p (optimized, changed)")
  with Cons.prems have "fold run_pass ps (o1, c1) = (optimized', False)" by simp
  from Cons.IH [OF this] have "optimized' = o1" "\<not> c1" by simp_all
  with step run_pass_unchanged [of p optimized changed o1] show ?case by simp
qed

lemma optimize_round_unchanged:
  "optimize_round rt prog = (prog', False) \<Longrightarrow> prog' = prog"
  unfolding optimize_round_def by (drule fold_run_pass_unchanged) simp

text \<open>What the loop returns is a list on which a whole round changes nothing.\<close>

lemma optimize_loop_fixpoint:
  assumes "optimize_loop rt prog = Some r"
  shows "optimize_round rt r = (r, False)"
proof (rule optimize_loop.raw_induct
    [where P = "\<lambda>rt prog r. optimize_round rt r = (r, False)", OF _ assms])
  fix f and rt :: "'a runtime" and prog r
  assume IH: "\<And>rt prog r. f rt prog = Some r \<Longrightarrow> optimize_round rt r = (r, False)"
    and step: "(case optimize_round rt prog of
                  (optimized', changed) \<Rightarrow> if changed then f rt optimized' else Some optimized') = Some r"
  obtain prog' changed where round: "optimize_round rt prog = (prog', changed)"
    by (cases "optimize_round rt prog")
  show "optimize_round rt r = (r, False)"
  proof (cases changed)
    case True
    with step round have "f rt prog' = Some r" by simp
    then show ?thesis by (rule IH)
  next
    case False
    with step round have "r = prog'" by simp
    moreover from round False have "prog' = prog" by (simp add: optimize_round_unchanged)
    ultimately show ?thesis using round False by simp
  qed
qed

text \<open>A list that a round maps to itself with \<open>changed = True\<close> keeps the loop running.\<close>

lemma optimize_loop_stuck:
  assumes stuck: "optimize_round rt prog = (prog, True)"
  shows "optimize_loop rt prog = None"
proof (rule ccontr)
  assume "optimize_loop rt prog \<noteq> None"
  then obtain r where ret: "optimize_loop rt prog = Some r" by auto
  have "optimize_round rt prog \<noteq> (prog, True)"
  proof (rule optimize_loop.raw_induct
      [where P = "\<lambda>rt prog r. optimize_round rt prog \<noteq> (prog, True)", OF _ ret])
    fix f and rt :: "'a runtime" and prog r
    assume IH: "\<And>rt prog r. f rt prog = Some r \<Longrightarrow> optimize_round rt prog \<noteq> (prog, True)"
      and step: "(case optimize_round rt prog of
                    (optimized', changed) \<Rightarrow> if changed then f rt optimized' else Some optimized') = Some r"
    show "optimize_round rt prog \<noteq> (prog, True)"
    proof
      assume again: "optimize_round rt prog = (prog, True)"
      with step have "f rt prog = Some r" by simp
      from IH [OF this] again show False by simp
    qed
  qed
  with stuck show False by simp
qed

lemma optimize_returns_fixpoint:
  "optimize_round rt prog = (prog', False) \<Longrightarrow> optimize rt prog = Some prog"
  by (frule optimize_round_unchanged) (simp add: optimize_def optimize_loop.simps)

lemma optimize_continues:
  "optimize_round rt prog = (prog', True) \<Longrightarrow> optimize rt prog = optimize rt prog'"
  unfolding optimize_def by (subst optimize_loop.simps) simp

text \<open>Two lists on which the loop ends: the empty list, and the IR of \<open>var x = 1;\<close>.\<close>

lemma empty_round: "optimize_round rt [] = ([], False)"
  by (simp add: optimize_eval)

lemma store_example_round1:
  "optimize_round rt [Ins ''CONST'' [VNum a, VStr ''t0''], Ins ''STORE'' [VStr ''t0'', VStr ''x'']]
     = ([Ins ''STORE'' [VStr ''t0'', VStr ''x'']], True)"
  by (simp add: optimize_eval)

lemma store_example_round2:
  "optimize_round rt [Ins ''STORE'' [VStr ''t0'', VStr ''x'']]
     = ([Ins ''STORE'' [VStr ''t0'', VStr ''x'']], False)"
  by (simp add: optimize_eval)

lemma store_example_optimize:
  "optimize rt [Ins ''CONST'' [VNum a, VStr ''t0''], Ins ''STORE'' [VStr ''t0'', VStr ''x'']]
     = Some [Ins ''STORE'' [VStr ''t0'', VStr ''x'']]"
  by (simp add: optimize_continues [OF store_example_round1]
        optimize_returns_fixpoint [OF store_example_round2])

section \<open>Claims about the optimizer\<close>

subsection \<open>C2: the constant-folding example\<close>

lemma folding_example_round1:
  "optimize_round rt [Ins ''CONST'' [VNum a, VStr ''t0''], Ins ''CONST'' [VNum b, VStr ''t1''],
                      Ins ''ADD'' [VStr ''t0'', VStr ''t1'', VStr ''t2'']] = ([], True)"
  by (simp add: optimize_eval)

text \<open>
  Claim C2, as the code has it. On \<open>[CONST(2,t0), CONST(3,t1), ADD(t0,t1,t2)]\<close> constant
  folding replaces the \<open>ADD\<close> by \<open>CONST(5,t2)\<close>. Dead-code elimination then finds no
  instruction that reads \<open>t0\<close>, \<open>t1\<close> or \<open>t2\<close> (the list holds \<open>CONST\<close>s only), so it
  removes all three, and \<open>optimize\<close> returns the empty list.
\<close>

theorem optimize_folding_example:
  "constantFolding ideal
     [Ins ''CONST'' [VNum 2, VStr ''t0''], Ins ''CONST'' [VNum 3, VStr ''t1''],
      Ins ''ADD'' [VStr ''t0'', VStr ''t1'', VStr ''t2'']]
     = ([Ins ''CONST'' [VNum 2, VStr ''t0''], Ins ''CONST'' [VNum 3, VStr ''t1''],
         Ins ''CONST'' [VNum 5, VStr ''t2'']], True)
   \<and> deadCodeElimination
        [Ins ''CONST'' [VNum (2::rat), VStr ''t0''], Ins ''CONST'' [VNum 3, VStr ''t1''],
         Ins ''CONST'' [VNum 5, VStr ''t2'']]
     = ([], True)
   \<and> optimize ideal
        [Ins ''CONST'' [VNum 2, VStr ''t0''], Ins ''CONST'' [VNum 3, VStr ''t1''],
         Ins ''ADD'' [VStr ''t0'', VStr ''t1'', VStr ''t2'']]
     = Some []"
proof (intro conjI)
  show "constantFolding ideal
     [Ins ''CONST'' [VNum 2, VStr ''t0''], Ins ''CONST'' [VNum 3, VStr ''t1''],
      Ins ''ADD'' [VStr ''t0'', VStr ''t1'', VStr ''t2'']]
     = ([Ins ''CONST'' [VNum 2, VStr ''t0''], Ins ''CONST'' [VNum 3, VStr ''t1''],
         Ins ''CONST'' [VNum 5, VStr ''t2'']], True)"
    by (simp add: optimize_eval ideal_def)
  show "deadCodeElimination
        [Ins ''CONST'' [VNum (2::rat), VStr ''t0''], Ins ''CONST'' [VNum 3, VStr ''t1''],
         Ins ''CONST'' [VNum 5, VStr ''t2'']]
     = ([], True)"
    by (simp add: optimize_eval)
  show "optimize ideal
        [Ins ''CONST'' [VNum 2, VStr ''t0''], Ins ''CONST'' [VNum 3, VStr ''t1''],
         Ins ''ADD'' [VStr ''t0'', VStr ''t1'', VStr ''t2'']]
     = Some []"
    by (simp add: optimize_continues [OF folding_example_round1]
          optimize_returns_fixpoint [OF empty_round])
qed

text \<open>The claim as the specification states it fails: the result is not \<open>[CONST(5,t2)]\<close>.\<close>

theorem optimize_folding_example_counterexample:
  "optimize ideal
     [Ins ''CONST'' [VNum 2, VStr ''t0''], Ins ''CONST'' [VNum 3, VStr ''t1''],
      Ins ''ADD'' [VStr ''t0'', VStr ''t1'', VStr ''t2'']]
   \<noteq> Some [Ins ''CONST'' [VNum 5, VStr ''t2'']]"
  by (simp add: optimize_continues [OF folding_example_round1]
        optimize_returns_fixpoint [OF empty_round])

subsection \<open>C3: what dead-code elimination counts as used\<close>

text \<open>
  The pass keeps exactly the instructions that are neither a dead store nor a dead label,
  so a \<open>STORE\<close> to a name that does not start with \<open>t\<close> is never dropped.
\<close>

lemma remove_dead_set:
  "set (fst (remove_dead usedVars jumps xs result changed))
     = set result \<union> {x \<in> set xs. \<not> dead_store usedVars x \<and> \<not> dead_label jumps x}"
  by (induction xs arbitrary: result changed) auto

lemma deadCodeElimination_set:
  "set (fst (deadCodeElimination prog))
     = {x \<in> set prog. \<not> dead_store (mark_used prog {}) x \<and> \<not> dead_label (collect_jumps prog {}) x}"
  by (simp add: deadCodeElimination_def remove_dead_set)

lemma deadCodeElimination_keeps_named_store:
  assumes "instr \<in> set prog" and "op instr = ''STORE''" and "arg instr 1 = VStr name"
    and "\<not> startsWith_t name"
  shows "instr \<in> set (fst (deadCodeElimination prog))"
  using assms by (simp add: deadCodeElimination_set dead_store_def dead_label_def)

text \<open>
  Claim C3 at the IR of \<open>var x = 1;\<close>. The pass skips every argument of a \<open>STORE\<close> or
  \<open>CONST\<close> when it marks uses, the source operand of a \<open>STORE\<close> included: \<open>t0\<close>, which
  the \<open>STORE\<close> reads, counts as unused, and the \<open>CONST\<close> that defines it is dropped. A
  store to a variable whose name starts with \<open>t\<close> is dropped like a temporary.
\<close>

theorem deadCodeElimination_drops_stored_constant:
  "deadCodeElimination [Ins ''CONST'' [VNum (1::rat), VStr ''t0''], Ins ''STORE'' [VStr ''t0'', VStr ''x'']]
     = ([Ins ''STORE'' [VStr ''t0'', VStr ''x'']], True)
   \<and> deadCodeElimination
        [Ins ''CONST'' [VNum (1::rat), VStr ''t0''], Ins ''STORE'' [VStr ''t0'', VStr ''total'']]
     = ([], True)"
  by (simp add: optimize_eval)

subsection \<open>C4: termination\<close>

lemma string_constant_round1:
  "optimize_round rt [Ins ''CONST'' [VStr ''a'', VStr ''t0''], Ins ''RETURN'' [VStr ''t0'']]
     = ([Ins ''CONST'' [VStr ''a'', VStr ''a''], Ins ''RETURN'' [VStr ''a'']], True)"
  by (simp add: optimize_eval)

lemma string_constant_round2:
  "optimize_round rt [Ins ''CONST'' [VStr ''a'', VStr ''a''], Ins ''RETURN'' [VStr ''a'']]
     = ([Ins ''CONST'' [VStr ''a'', VStr ''a''], Ins ''RETURN'' [VStr ''a'']], True)"
  by (simp add: optimize_eval)

lemma string_constant_tokens:
  \<open>tokenize ''return "a";''
     = Inr [Tok ''RETURN'' ''return'' 1 1, Tok ''STRING'' ''a'' 1 10, Tok ''SEMICOLON'' '';'' 1 11,
            Tok ''EOF'' [] 1 12]\<close>
  by code_simp

lemma string_constant_parse:
  "parse 10 rt [Tok ''RETURN'' ''return'' 1 1, Tok ''STRING'' ''a'' 1 10, Tok ''SEMICOLON'' '';'' 1 11,
                Tok ''EOF'' [] 1 12]
     = Some (Inr (Program [ReturnStatement (Some (Literal (VStr ''a'')))]))"
  by (simp add: eval_nat_numeral parse_eval)

lemma string_constant_analyze:
  "analyze new_SemanticAnalyzer (Program [ReturnStatement (Some (Literal (VStr ''a'')))])
     = ([], new_SemanticAnalyzer)"
  by (simp add: analyze_eval)

lemma string_constant_generate:
  "generate (Program [ReturnStatement (Some (Literal (VStr ''a'')))])
     = Inr [Ins ''CONST'' [VStr ''a'', VStr ''t0''], Ins ''RETURN'' [VStr ''t0'']]"
  by (simp add: generate_eval)

text \<open>
  Claim C4 at the IR of \<open>return "a";\<close>. Constant propagation rewrites \<open>CONST("a",t0)\<close> to
  \<open>CONST("a","a")\<close> and records the string \<open>a\<close> as a constant of value \<open>"a"\<close>. From
  then on every round substitutes \<open>"a"\<close> for \<open>"a"\<close> and reports a change, so the loop of
  \<open>optimize\<close> never ends: \<open>optimize\<close> does not return, and neither does \<open>compile\<close>
  (whatever the fuel of the model's parser), although lexer, parser, analyzer and IR
  generator all succeed.
\<close>

theorem optimize_diverges:
  \<open>optimize rt [Ins ''CONST'' [VStr ''a'', VStr ''t0''], Ins ''RETURN'' [VStr ''t0'']] = None
   \<and> generate (Program [ReturnStatement (Some (Literal (VStr ''a'')))])
       = Inr [Ins ''CONST'' [VStr ''a'', VStr ''t0''], Ins ''RETURN'' [VStr ''t0'']]
   \<and> parse 10 rt [Tok ''RETURN'' ''return'' 1 1, Tok ''STRING'' ''a'' 1 10,
                   Tok ''SEMICOLON'' '';'' 1 11, Tok ''EOF'' [] 1 12]
       = Some (Inr (Program [ReturnStatement (Some (Literal (VStr ''a'')))]))
   \<and> compile rt fuel new_Compiler ''return "a";'' = None\<close>
proof -
  let ?toks = "[Tok ''RETURN'' ''return'' 1 1, Tok ''STRING'' ''a'' 1 10,
                Tok ''SEMICOLON'' '';'' 1 11, Tok ''EOF'' [] 1 12]"
  let ?tree = "Program [ReturnStatement (Some (Literal (VStr ''a'')))] :: 'a node"
  have "optimize rt [Ins ''CONST'' [VStr ''a'', VStr ''t0''], Ins ''RETURN'' [VStr ''t0'']]
          = optimize rt [Ins ''CONST'' [VStr ''a'', VStr ''a''], Ins ''RETURN'' [VStr ''a'']]"
    by (rule optimize_continues [OF string_constant_round1])
  also have "\<dots> = None"
    unfolding optimize_def by (rule optimize_loop_stuck [OF string_constant_round2])
  finally have diverges:
    "optimize rt [Ins ''CONST'' [VStr ''a'', VStr ''t0''], Ins ''RETURN'' [VStr ''t0'']] = None" .
  have \<open>compile rt fuel new_Compiler ''return "a";'' = None\<close>
  proof (cases "parse fuel rt ?toks")
    case None
    then show ?thesis by (simp add: compile_def string_constant_tokens)
  next
    case (Some r)
    then have "parse (max fuel 10) rt ?toks = Some r"
      by (rule parse_mono) simp
    moreover have "parse (max fuel 10) rt ?toks = Some (Inr ?tree)"
      by (rule parse_mono [OF string_constant_parse]) simp
    ultimately have "parse fuel rt ?toks = Some (Inr ?tree)"
      using Some by simp
    then show ?thesis
      by (simp add: compile_def string_constant_tokens new_Compiler_def
            string_constant_analyze string_constant_generate diverges)
  qed
  with diverges show ?thesis
    by (simp add: string_constant_generate string_constant_parse)
qed

subsection \<open>C5: idempotence\<close>

text \<open>
  \<open>optimize\<close> returns only from a round in which no pass reported a change, and such a
  round leaves the list as it was. So a list that \<open>optimize\<close> returns is returned again,
  unchanged, when \<open>optimize\<close> is run on it.
\<close>

lemma optimize_result_is_fixpoint:
  assumes "optimize rt prog = Some r"
  shows "optimize rt r = Some r"
proof -
  from assms have "optimize_round rt r = (r, False)"
    by (simp add: optimize_def optimize_loop_fixpoint)
  then show ?thesis
    by (rule optimize_returns_fixpoint)
qed

lemma store_example_optimize_twice:
  "optimize rt [Ins ''CONST'' [VNum a, VStr ''t0''], Ins ''STORE'' [VStr ''t0'', VStr ''x'']]
     = Some [Ins ''STORE'' [VStr ''t0'', VStr ''x'']]
   \<and> optimize rt [Ins ''STORE'' [VStr ''t0'', VStr ''x'']]
     = Some [Ins ''STORE'' [VStr ''t0'', VStr ''x'']]"
  using optimize_result_is_fixpoint [OF store_example_optimize [of rt a]]
  by (simp add: store_example_optimize)

text \<open>
  Claim C5 at the IR of \<open>return "a";\<close>. The equation
  \<open>optimize(optimize(ir)) == optimize(ir)\<close> needs both calls to return. On this list
  \<open>optimize\<close> does not return (the loop of C4), so the nested call
  \<open>optimize(optimize(ir))\<close> does not return either and there is no list on either side
  of the equation. The rounds do settle on one list, \<open>[CONST("a","a"), RETURN("a")]\<close>,
  which a further round maps to itself; but that round reports a change, so the list is
  never returned, and \<open>optimize\<close> started on that list does not return either.
\<close>

theorem optimize_twice_never_returns:
  "generate (Program [ReturnStatement (Some (Literal (VStr ''a'')))])
     = Inr [Ins ''CONST'' [VStr ''a'', VStr ''t0''], Ins ''RETURN'' [VStr ''t0'']]
   \<and> optimize rt [Ins ''CONST'' [VStr ''a'', VStr ''t0''], Ins ''RETURN'' [VStr ''t0'']] = None
   \<and> Option.bind (optimize rt [Ins ''CONST'' [VStr ''a'', VStr ''t0''], Ins ''RETURN'' [VStr ''t0'']])
        (optimize rt) = None
   \<and> optimize_round rt [Ins ''CONST'' [VStr ''a'', VStr ''a''], Ins ''RETURN'' [VStr ''a'']]
     = ([Ins ''CONST'' [VStr ''a'', VStr ''a''], Ins ''RETURN'' [VStr ''a'']], True)
   \<and> optimize rt [Ins ''CONST'' [VStr ''a'', VStr ''a''], Ins ''RETURN'' [VStr ''a'']] = None"
proof -
  have fixpoint:
    "optimize rt [Ins ''CONST'' [VStr ''a'', VStr ''a''], Ins ''RETURN'' [VStr ''a'']] = None"
    unfolding optimize_def by (rule optimize_loop_stuck [OF string_constant_round2])
  have "optimize rt [Ins ''CONST'' [VStr ''a'', VStr ''t0''], Ins ''RETURN'' [VStr ''t0'']]
          = optimize rt [Ins ''CONST'' [VStr ''a'', VStr ''a''], Ins ''RETURN'' [VStr ''a'']]"
    by (rule optimize_continues [OF string_constant_round1])
  with fixpoint have first:
    "optimize rt [Ins ''CONST'' [VStr ''a'', VStr ''t0''], Ins ''RETURN'' [VStr ''t0'']] = None"
    by simp
  from first fixpoint show ?thesis
    by (simp add: string_constant_generate string_constant_round2)
qed

subsection \<open>C9: constant propagation rewrites the destination operand\<close>

lemma constantPropagation_loop_extends:
  "\<exists>ys. fst (constantPropagation_loop xs constants result changed) = result @ ys
        \<and> length ys = length xs"
proof (induction xs arbitrary: constants result changed)
  case Nil
  then show ?case by simp
next
  case (Cons x xs)
  obtain constants' out instrChanged where step: "propagate_instr constants x = (constants', out, instrChanged)"
    by (cases "propagate_instr constants x")
  from Cons.IH [of constants' "result @ [out]" "instrChanged \<or> changed"]
  obtain ys where "fst (constantPropagation_loop xs constants' (result @ [out]) (instrChanged \<or> changed))
                     = (result @ [out]) @ ys" and "length ys = length xs"
    by blast
  with step show ?case by simp
qed

lemma constantPropagation_loop_nth:
  "i < length xs \<Longrightarrow>
   fst (constantPropagation_loop xs constants result changed) ! (length result + i)
     = fst (snd (propagate_instr
         (fold (\<lambda>instr constants. fst (propagate_instr constants instr)) (take i xs) constants)
         (xs ! i)))"
proof (induction xs arbitrary: i constants result changed)
  case Nil
  then show ?case by simp
next
  case (Cons x xs)
  obtain constants' out instrChanged where step: "propagate_instr constants x = (constants', out, instrChanged)"
    by (cases "propagate_instr constants x")
  show ?case
  proof (cases i)
    case 0
    obtain ys where "fst (constantPropagation_loop xs constants' (result @ [out]) (instrChanged \<or> changed))
                       = (result @ [out]) @ ys"
      using constantPropagation_loop_extends [of xs constants' "result @ [out]" "instrChanged \<or> changed"]
      by blast
    with step 0 show ?thesis by (simp add: nth_append)
  next
    case (Suc j)
    with Cons.prems have "j < length xs" by simp
    from Cons.IH [OF this, of constants' "result @ [out]" "instrChanged \<or> changed"] step Suc
    show ?thesis by simp
  qed
qed

lemma constantPropagation_nth:
  "i < length prog \<Longrightarrow>
   fst (constantPropagation prog) ! i = fst (snd (propagate_instr (constants_before prog i) (prog ! i)))"
  using constantPropagation_loop_nth [of i prog Map.empty "[]" False]
  by (simp add: constantPropagation_def constants_before_def)

lemma propagate_CONST:
  "propagate_instr constants (Ins ''CONST'' [v, VStr t])
     = (constants(VStr t \<mapsto> v),
        Ins ''CONST'' [substitute (constants(VStr t \<mapsto> v)) v, v], True)"
  by (simp add: propagate_instr_def track_constants_def is_known_def substitute_def arg_def Ins_def)

lemma propagate_STORE:
  "constants (VStr s) = Some c \<Longrightarrow>
   propagate_instr constants (Ins ''STORE'' [VStr s, VStr x])
     = (constants(VStr x \<mapsto> c), Ins ''STORE'' [c, c], True)"
  by (simp add: propagate_instr_def track_constants_def is_known_def substitute_def arg_def Ins_def)

lemma substitute_not_string: "\<not> is_string v \<Longrightarrow> substitute constants v = v"
  by (cases v) (simp_all add: substitute_def is_known_def)

text \<open>
  Claim C9, amended. A \<open>CONST(v,t)\<close> with a string destination \<open>t\<close> goes through the
  argument substitution after \<open>t\<close> has been recorded, so its destination operand is
  replaced by \<open>v\<close>. Its value operand goes through the same substitution: the output is
  \<open>CONST(v',v)\<close>, where \<open>v'\<close> is \<open>v\<close> unless \<open>v\<close> is itself a string recorded as a
  constant at that point, and then \<open>v'\<close> is the recorded value. So \<open>CONST(v,v)\<close> is the
  output whenever \<open>v\<close> is not a string. A \<open>STORE(s,x)\<close> whose source \<open>s\<close> is a known
  constant of value \<open>c\<close> becomes \<open>STORE(c,c)\<close>.
\<close>

theorem constantPropagation_rewrites_destination:
  assumes "i < length prog"
  shows "(prog ! i = Ins ''CONST'' [v, VStr t] \<longrightarrow>
            fst (constantPropagation prog) ! i
              = Ins ''CONST'' [substitute ((constants_before prog i)(VStr t \<mapsto> v)) v, v])
       \<and> (prog ! i = Ins ''CONST'' [v, VStr t] \<and> \<not> is_string v \<longrightarrow>
            fst (constantPropagation prog) ! i = Ins ''CONST'' [v, v])
       \<and> (prog ! i = Ins ''STORE'' [VStr s, VStr x] \<and> constants_before prog i (VStr s) = Some c \<longrightarrow>
            fst (constantPropagation prog) ! i = Ins ''STORE'' [c, c])"
  using assms
  by (auto simp: constantPropagation_nth propagate_CONST propagate_STORE substitute_not_string)

lemma constants_before_example:
  "constants_before [Ins ''CONST'' [VNum (1::rat), VStr ''t3''], Ins ''STORE'' [VStr ''t3'', VStr ''x'']] 1
     (VStr ''t3'') = Some (VNum 1)"
  by (simp add: constants_before_def propagate_CONST)

theorem constantPropagation_rewrites_destination_witness:
  "fst (constantPropagation [Ins ''CONST'' [VNum (1::rat), VStr ''t3''], Ins ''STORE'' [VStr ''t3'', VStr ''x'']]) ! 0
     = Ins ''CONST'' [VNum 1, VNum 1]
   \<and> fst (constantPropagation [Ins ''CONST'' [VNum (1::rat), VStr ''t3''], Ins ''STORE'' [VStr ''t3'', VStr ''x'']]) ! 1
     = Ins ''STORE'' [VNum 1, VNum 1]"
  using constantPropagation_rewrites_destination
          [of 0 "[Ins ''CONST'' [VNum (1::rat), VStr ''t3''], Ins ''STORE'' [VStr ''t3'', VStr ''x'']]"
              "VNum 1" "''t3''" "''t3''" "''x''" "VNum 1"]
        constantPropagation_rewrites_destination
          [of 1 "[Ins ''CONST'' [VNum (1::rat), VStr ''t3''], Ins ''STORE'' [VStr ''t3'', VStr ''x'']]"
              "VNum 1" "''t3''" "''t3''" "''x''" "VNum 1"]
        constants_before_example
  by (simp add: Ins_def substitute_def is_known_def)

text \<open>
  The claim as stated fails where the value is a string that names a known constant: in
  the IR of \<open>1 + "t0";\<close> the second instruction \<open>CONST("t0",t1)\<close> becomes
  \<open>CONST(1,"t0")\<close>, not \<open>CONST("t0","t0")\<close>.
\<close>

theorem constantPropagation_rewrites_destination_counterexample:
  "fst (constantPropagation
          [Ins ''CONST'' [VNum (1::rat), VStr ''t0''], Ins ''CONST'' [VStr ''t0'', VStr ''t1''],
           Ins ''ADD'' [VStr ''t0'', VStr ''t1'', VStr ''t2'']]) ! 1
     = Ins ''CONST'' [VNum 1, VStr ''t0'']
   \<and> Ins ''CONST'' [VNum (1::rat), VStr ''t0''] \<noteq> Ins ''CONST'' [VStr ''t0'', VStr ''t0'']"
  by (simp add: optimize_eval)

section \<open>Claims about the lexer\<close>

subsection \<open>C7: the column of a two-character operator\<close>

text \<open>
  The loops of \<open>identifier()\<close> and \<open>number()\<close> add one character to the text for every
  column they advance, so for a word (identifier or keyword) and for a number the
  recorded column is the one where the lexeme starts.
\<close>

lemma identifier_loop_column:
  "identifier_loop l v = (l1, v1) \<Longrightarrow>
   column l1 - int (length v1) = column l - int (length v) \<and> line l1 = line l
   \<and> lex_tokens l1 = lex_tokens l"
proof (induction l v arbitrary: l1 v1 rule: identifier_loop.induct)
  case (1 l v)
  show ?case
  proof (cases "isAlphaNumeric (peek l)")
    case True
    obtain c l' where adv: "advance l = (c, l')" by (cases "advance l")
    with True 1(2) have "identifier_loop l' (v @ [c]) = (l1, v1)"
      by (subst (asm) identifier_loop.simps) simp
    from 1(1) [OF True refl adv [symmetric] this] adv show ?thesis
      by (auto simp: advance_def)
  next
    case False
    with 1(2) show ?thesis by (subst (asm) identifier_loop.simps) simp
  qed
qed

lemma digits_loop_column:
  "digits_loop l v = (l1, v1) \<Longrightarrow>
   column l1 - int (length v1) = column l - int (length v) \<and> line l1 = line l
   \<and> lex_tokens l1 = lex_tokens l"
proof (induction l v arbitrary: l1 v1 rule: digits_loop.induct)
  case (1 l v)
  show ?case
  proof (cases "isDigit (peek l)")
    case True
    obtain c l' where adv: "advance l = (c, l')" by (cases "advance l")
    with True 1(2) have "digits_loop l' (v @ [c]) = (l1, v1)"
      by (subst (asm) digits_loop.simps) simp
    from 1(1) [OF True refl adv [symmetric] this] adv show ?thesis
      by (auto simp: advance_def)
  next
    case False
    with 1(2) show ?thesis by (subst (asm) digits_loop.simps) simp
  qed
qed

lemma scan_identifier_column:
  "\<exists>ty v. lex_tokens (scan_identifier l) = lex_tokens l @ [Tok ty v (line l) (column l - 1)]"
proof -
  obtain l1 v1 where loop: "identifier_loop l [source l ! (position l - 1)] = (l1, v1)"
    by (cases "identifier_loop l [source l ! (position l - 1)]")
  from identifier_loop_column [OF loop] loop show ?thesis
    by (simp add: scan_identifier_def addToken_def Tok_def)
qed

lemma scan_number_column:
  "\<exists>v. lex_tokens (scan_number l) = lex_tokens l @ [Tok ''NUMBER'' v (line l) (column l - 1)]"
proof -
  obtain l1 v1 where d1: "digits_loop l [source l ! (position l - 1)] = (l1, v1)"
    by (cases "digits_loop l [source l ! (position l - 1)]")
  note c1 = digits_loop_column [OF d1]
  show ?thesis
  proof (cases "peek l1 = CHR ''.'' \<and> isDigit (peekNext l1)")
    case True
    obtain c l' where adv: "advance l1 = (c, l')" by (cases "advance l1")
    obtain l2 v2 where d2: "digits_loop l' (v1 @ [c]) = (l2, v2)"
      by (cases "digits_loop l' (v1 @ [c])")
    from digits_loop_column [OF d2] c1 adv True d1 d2 show ?thesis
      by (auto simp: scan_number_def addToken_def Tok_def advance_def)
  next
    case False
    with c1 d1 show ?thesis
      by (auto simp: scan_number_def addToken_def Tok_def)
  qed
qed

lemma isAlpha_not_special:
  "isAlpha c \<Longrightarrow> c \<notin> set ''(){}[],.;+-*/=!<> '' \<and> c \<noteq> CHR 0x0D \<and> c \<noteq> CHR 0x09 \<and> c \<noteq> CHR 0x0A \<and> c \<noteq> CHR 0x22 \<and> \<not> isDigit c"
  by (auto simp: isAlpha_def isDigit_def)

lemma isDigit_not_special:
  "isDigit c \<Longrightarrow> c \<notin> set ''(){}[],.;+-*/=!<> '' \<and> c \<noteq> CHR 0x0D \<and> c \<noteq> CHR 0x09 \<and> c \<noteq> CHR 0x0A \<and> c \<noteq> CHR 0x22"
  by (auto simp: isDigit_def)

lemma scanToken_word_column:
  assumes "isAlpha (source l ! position l) \<or> isDigit (source l ! position l)"
  shows "\<exists>l' ty v. scanToken l = Inr l'
           \<and> lex_tokens l' = lex_tokens l @ [Tok ty v (line l) (column l)]"
proof -
  let ?c = "source l ! position l"
  let ?l = "l\<lparr>position := position l + 1, column := column l + 1\<rparr>"
  from assms show ?thesis
  proof
    assume alpha: "isAlpha ?c"
    with isAlpha_not_special [OF alpha] have "scanToken l = Inr (scan_identifier ?l)"
      by (simp add: scanToken_def advance_def)
    with scan_identifier_column [of ?l] show ?thesis by auto
  next
    assume digit: "isDigit ?c"
    with isDigit_not_special [OF digit] have "scanToken l = Inr (scan_number ?l)"
      by (simp add: scanToken_def advance_def)
    with scan_number_column [of ?l] show ?thesis by auto
  qed
qed

text \<open>
  Claim C7 at the source \<open>a == b\<close>. The lexeme \<open>==\<close> starts in column 3. The lexer
  records the token with the one-character text \<open>=\<close> (see C10) and computes the column
  as the current column minus the length of that text: column 4, the second character of
  the lexeme. Identifiers are recorded at their first character (columns 1 and 6).
\<close>

theorem tokenize_operator_column:
  "tokenize ''a == b''
     = Inr [Tok ''IDENTIFIER'' ''a'' 1 1, Tok ''EQUAL_EQUAL'' ''='' 1 4, Tok ''IDENTIFIER'' ''b'' 1 6,
            Tok ''EOF'' [] 1 7]"
  by code_simp

subsection \<open>C10: the text of a two-character operator\<close>

text \<open>
  When the scanner stands at \<open>=\<close>, \<open>!\<close>, \<open><\<close> or \<open>>\<close> followed by one \<open>=\<close> (and no second
  one), the first \<open>match('=')\<close> consumes the \<open>=\<close> and selects the two-character type; the
  second \<open>match('=')\<close> fails and selects the one-character text.
\<close>

lemma scanToken_two_char_operator:
  assumes "position l + 1 < length (source l)"
    and "source l ! position l = c"
    and "c \<in> set ''=!<>''"
    and "source l ! (position l + 1) = CHR ''=''"
    and "position l + 2 < length (source l) \<Longrightarrow> source l ! (position l + 2) \<noteq> CHR ''=''"
  shows "scanToken l =
           Inr (l\<lparr>position := position l + 2, column := column l + 2,
                  lex_tokens := lex_tokens l @ [Tok (two_char_type c) [c] (line l) (column l + 1)]\<rparr>)"
  using assms
  by (auto simp: scanToken_def advance_def scan_operator_def match_char_def isAtEnd_def
        addToken_def two_char_type_def Tok_def Let_def)

lemma generateIR_unknown_operator:
  assumes "generateIR left g = Inr (leftTemp, g1)"
    and "generateIR right g1 = Inr (rightTemp, g2)"
    and "binary_operation operator = None"
  shows "generateIR (BinaryExpression operator left right) g
           = Inl (IRGenerationError (''Unknown binary operator: '' @ operator)
                    (BinaryExpression operator left right))"
  using assms by (simp add: g_bind_def createTemp_def split: prod.splits)

lemma comparison_tokens:
  "tokenize ''1 == 2;''
     = Inr [Tok ''NUMBER'' ''1'' 1 1, Tok ''EQUAL_EQUAL'' ''='' 1 4, Tok ''NUMBER'' ''2'' 1 6,
            Tok ''SEMICOLON'' '';'' 1 7, Tok ''EOF'' [] 1 8]"
  "tokenize ''1 != 2;''
     = Inr [Tok ''NUMBER'' ''1'' 1 1, Tok ''BANG_EQUAL'' ''!'' 1 4, Tok ''NUMBER'' ''2'' 1 6,
            Tok ''SEMICOLON'' '';'' 1 7, Tok ''EOF'' [] 1 8]"
  "tokenize ''1 <= 2;''
     = Inr [Tok ''NUMBER'' ''1'' 1 1, Tok ''LESS_EQUAL'' ''<'' 1 4, Tok ''NUMBER'' ''2'' 1 6,
            Tok ''SEMICOLON'' '';'' 1 7, Tok ''EOF'' [] 1 8]"
  "tokenize ''1 >= 2;''
     = Inr [Tok ''NUMBER'' ''1'' 1 1, Tok ''GREATER_EQUAL'' ''>'' 1 4, Tok ''NUMBER'' ''2'' 1 6,
            Tok ''SEMICOLON'' '';'' 1 7, Tok ''EOF'' [] 1 8]"
  by code_simp+

lemma comparison_parse:
  "operator \<in> set ''=!<>'' \<Longrightarrow>
   parse 10 rt [Tok ''NUMBER'' ''1'' 1 1, Tok (two_char_type operator) [operator] 1 4,
                Tok ''NUMBER'' ''2'' 1 6, Tok ''SEMICOLON'' '';'' 1 7, Tok ''EOF'' [] 1 8]
     = Some (Inr (Program [ExpressionStatement
         (BinaryExpression [operator] (Literal (VNum (parseFloat rt ''1'')))
            (Literal (VNum (parseFloat rt ''2''))))]))"
  by (auto simp: eval_nat_numeral parse_eval two_char_type_def)

lemma comparison_analyze:
  "analyze new_SemanticAnalyzer
     (Program [ExpressionStatement (BinaryExpression operator (Literal a) (Literal b))])
     = ([], new_SemanticAnalyzer)"
  by (simp add: analyze_eval)

lemma comparison_generate:
  "generate (Program [ExpressionStatement (BinaryExpression operator (Literal a) (Literal b))])
     = (case binary_operation operator of
          None \<Rightarrow> Inl (IRGenerationError (''Unknown binary operator: '' @ operator)
                     (BinaryExpression operator (Literal a) (Literal b)))
        | Some operation \<Rightarrow>
            Inr [Ins ''CONST'' [a, VStr ''t0''], Ins ''CONST'' [b, VStr ''t1''],
                 Ins operation [VStr ''t0'', VStr ''t1'', VStr ''t2'']])"
  by (simp add: generate_eval split: option.splits)

lemma comparison_round1:
  "operation \<in> set binary_ops \<Longrightarrow>
   optimize_round rt [Ins ''CONST'' [VNum a, VStr ''t0''], Ins ''CONST'' [VNum b, VStr ''t1''],
                      Ins operation [VStr ''t0'', VStr ''t1'', VStr ''t2'']] = ([], True)"
  by (auto simp: optimize_eval)

lemma comparison_optimize:
  "operation \<in> set binary_ops \<Longrightarrow>
   optimize rt [Ins ''CONST'' [VNum a, VStr ''t0''], Ins ''CONST'' [VNum b, VStr ''t1''],
                Ins operation [VStr ''t0'', VStr ''t1'', VStr ''t2'']] = Some []"
  by (simp add: optimize_continues [OF comparison_round1] optimize_returns_fixpoint [OF empty_round])

lemma generate_code_empty: "\<exists>emitted. generate_code rt [] = Inr emitted"
  by (simp add: generate_code_def)

text \<open>
  Claim C10. For \<open>==\<close>, \<open>!=\<close>, \<open><=\<close> and \<open>>=\<close> (not followed by a further \<open>=\<close>) the
  scanner emits a token of the two-character type whose text is the first character
  alone. The parser takes the operator of a binary expression from the token's text, so
  the IR generator sees \<open>=\<close> or \<open>!\<close>, which it rejects with an \<open>IRGenerationError\<close>
  "Unknown binary operator", and \<open><\<close> or \<open>>\<close>, which it lowers to \<open>LT\<close> or \<open>GT\<close>.
\<close>

theorem two_char_operator_text:
  "(position l + 1 < length (source l) \<and> source l ! position l = c \<and> c \<in> set ''=!<>''
      \<and> source l ! (position l + 1) = CHR ''=''
      \<and> (position l + 2 < length (source l) \<longrightarrow> source l ! (position l + 2) \<noteq> CHR ''='')
    \<longrightarrow> scanToken l =
          Inr (l\<lparr>position := position l + 2, column := column l + 2,
                 lex_tokens := lex_tokens l @ [Tok (two_char_type c) [c] (line l) (column l + 1)]\<rparr>))
   \<and> (generateIR left g = Inr (leftTemp, g1) \<and> generateIR right g1 = Inr (rightTemp, g2)
        \<and> (operator = ''='' \<or> operator = ''!'')
    \<longrightarrow> generateIR (BinaryExpression operator left right) g
          = Inl (IRGenerationError (''Unknown binary operator: '' @ operator)
                   (BinaryExpression operator left right)))
   \<and> map_option (errors \<circ> fst) (compile rt 10 new_Compiler ''1 == 2;'')
       = Some [\<lparr>phase = ''IR Generation'', message = ''Unknown binary operator: ='',
                at_line = None, at_column = None\<rparr>]
   \<and> map_option (errors \<circ> fst) (compile rt 10 new_Compiler ''1 != 2;'')
       = Some [\<lparr>phase = ''IR Generation'', message = ''Unknown binary operator: !'',
                at_line = None, at_column = None\<rparr>]
   \<and> map_option (ir \<circ> fst) (compile rt 10 new_Compiler ''1 <= 2;'')
       = Some (Some [Ins ''CONST'' [VNum (parseFloat rt ''1''), VStr ''t0''],
                     Ins ''CONST'' [VNum (parseFloat rt ''2''), VStr ''t1''],
                     Ins ''LT'' [VStr ''t0'', VStr ''t1'', VStr ''t2'']])
   \<and> map_option (ir \<circ> fst) (compile rt 10 new_Compiler ''1 >= 2;'')
       = Some (Some [Ins ''CONST'' [VNum (parseFloat rt ''1''), VStr ''t0''],
                     Ins ''CONST'' [VNum (parseFloat rt ''2''), VStr ''t1''],
                     Ins ''GT'' [VStr ''t0'', VStr ''t1'', VStr ''t2'']])"
proof (intro conjI impI)
  assume "position l + 1 < length (source l) \<and> source l ! position l = c \<and> c \<in> set ''=!<>''
      \<and> source l ! (position l + 1) = CHR ''=''
      \<and> (position l + 2 < length (source l) \<longrightarrow> source l ! (position l + 2) \<noteq> CHR ''='')"
  then show "scanToken l =
          Inr (l\<lparr>position := position l + 2, column := column l + 2,
                 lex_tokens := lex_tokens l @ [Tok (two_char_type c) [c] (line l) (column l + 1)]\<rparr>)"
    by (intro scanToken_two_char_operator) simp_all
next
  assume "generateIR left g = Inr (leftTemp, g1) \<and> generateIR right g1 = Inr (rightTemp, g2)
        \<and> (operator = ''='' \<or> operator = ''!'')"
  then show "generateIR (BinaryExpression operator left right) g
          = Inl (IRGenerationError (''Unknown binary operator: '' @ operator)
                   (BinaryExpression operator left right))"
    by (intro generateIR_unknown_operator [of left g leftTemp g1 right rightTemp g2])
       (auto simp: binary_operation_def)
next
  show "map_option (errors \<circ> fst) (compile rt 10 new_Compiler ''1 == 2;'')
       = Some [\<lparr>phase = ''IR Generation'', message = ''Unknown binary operator: ='',
                at_line = None, at_column = None\<rparr>]"
    using comparison_parse [of "CHR ''=''" rt]
    by (simp add: compile_def comparison_tokens new_Compiler_def comparison_analyze
          comparison_generate binary_operation_def two_char_type_def failure_def)
next
  show "map_option (errors \<circ> fst) (compile rt 10 new_Compiler ''1 != 2;'')
       = Some [\<lparr>phase = ''IR Generation'', message = ''Unknown binary operator: !'',
                at_line = None, at_column = None\<rparr>]"
    using comparison_parse [of "CHR ''!''" rt]
    by (simp add: compile_def comparison_tokens new_Compiler_def comparison_analyze
          comparison_generate binary_operation_def two_char_type_def failure_def)
next
  obtain emitted where emitted: "generate_code rt [] = Inr emitted"
    using generate_code_empty by blast
  have lt: "optimize rt [Ins ''CONST'' [VNum (parseFloat rt ''1''), VStr ''t0''],
                     Ins ''CONST'' [VNum (parseFloat rt ''2''), VStr ''t1''],
                     Ins ''LT'' [VStr ''t0'', VStr ''t1'', VStr ''t2'']] = Some []"
    by (rule comparison_optimize) (simp add: binary_ops_def)
  show "map_option (ir \<circ> fst) (compile rt 10 new_Compiler ''1 <= 2;'')
       = Some (Some [Ins ''CONST'' [VNum (parseFloat rt ''1''), VStr ''t0''],
                     Ins ''CONST'' [VNum (parseFloat rt ''2''), VStr ''t1''],
                     Ins ''LT'' [VStr ''t0'', VStr ''t1'', VStr ''t2'']])"
    using comparison_parse [of "CHR ''<''" rt]
    by (simp add: compile_def comparison_tokens new_Compiler_def comparison_analyze
          comparison_generate binary_operation_def two_char_type_def lt emitted)
next
  obtain emitted where emitted: "generate_code rt [] = Inr emitted"
    using generate_code_empty by blast
  have gt: "optimize rt [Ins ''CONST'' [VNum (parseFloat rt ''1''), VStr ''t0''],
                     Ins ''CONST'' [VNum (parseFloat rt ''2''), VStr ''t1''],
                     Ins ''GT'' [VStr ''t0'', VStr ''t1'', VStr ''t2'']] = Some []"
    by (rule comparison_optimize) (simp add: binary_ops_def)
  show "map_option (ir \<circ> fst) (compile rt 10 new_Compiler ''1 >= 2;'')
       = Some (Some [Ins ''CONST'' [VNum (parseFloat rt ''1''), VStr ''t0''],
                     Ins ''CONST'' [VNum (parseFloat rt ''2''), VStr ''t1''],
                     Ins ''GT'' [VStr ''t0'', VStr ''t1'', VStr ''t2'']])"
    using comparison_parse [of "CHR ''>''" rt]
    by (simp add: compile_def comparison_tokens new_Compiler_def comparison_analyze
          comparison_generate binary_operation_def two_char_type_def gt emitted)
qed

theorem two_char_operator_text_witness:
  "scanToken \<lparr>source = ''a == b'', position = 2, line = 1, column = 3,
              lex_tokens = [Tok ''IDENTIFIER'' ''a'' 1 1]\<rparr>
     = Inr \<lparr>source = ''a == b'', position = 4, line = 1, column = 5,
            lex_tokens = [Tok ''IDENTIFIER'' ''a'' 1 1, Tok ''EQUAL_EQUAL'' ''='' 1 4]\<rparr>
   \<and> generateIR (BinaryExpression ''='' (Literal (VNum 1)) (Literal (VNum (2::rat))))
        \<lparr>instructions = [], tempCounter = 0, labelCounter = 0\<rparr>
     = Inl (IRGenerationError ''Unknown binary operator: =''
              (BinaryExpression ''='' (Literal (VNum 1)) (Literal (VNum 2))))
   \<and> map_option (errors \<circ> fst) (compile ideal 10 new_Compiler ''1 == 2;'')
     = Some [\<lparr>phase = ''IR Generation'', message = ''Unknown binary operator: ='',
              at_line = None, at_column = None\<rparr>]"
  using two_char_operator_text
    [where l = "\<lparr>source = ''a == b'', position = 2, line = 1, column = 3,
                  lex_tokens = [Tok ''IDENTIFIER'' ''a'' 1 1]\<rparr>"
       and c = "CHR ''=''"
       and left = "Literal (VNum (1::rat))"
       and g = "\<lparr>instructions = [], tempCounter = 0, labelCounter = 0\<rparr>"
       and leftTemp = "''t0''"
       and ?g1.0 = "\<lparr>instructions = [Ins ''CONST'' [VNum 1, VStr ''t0'']],
                    tempCounter = 1, labelCounter = 0\<rparr>"
       and right = "Literal (VNum 2)"
       and rightTemp = "''t1''"
       and ?g2.0 = "\<lparr>instructions = [Ins ''CONST'' [VNum 1, VStr ''t0''], Ins ''CONST'' [VNum 2, VStr ''t1'']],
                    tempCounter = 2, labelCounter = 0\<rparr>"
       and operator = "''=''"
       and rt = ideal]
  by (simp add: two_char_type_def createTemp_def emit_def nat_toString.simps digit_char_def Ins_def)

section \<open>Claims about the parser\<close>

subsection \<open>C6: assignment to something that is not an identifier\<close>

lemma member_assignment_tokens:
  "tokenize ''a.b = 1;''
     = Inr [Tok ''IDENTIFIER'' ''a'' 1 1, Tok ''DOT'' ''.'' 1 2, Tok ''IDENTIFIER'' ''b'' 1 3,
            Tok ''EQUAL'' ''='' 1 5, Tok ''NUMBER'' ''1'' 1 7, Tok ''SEMICOLON'' '';'' 1 8,
            Tok ''EOF'' [] 1 9]"
  by code_simp

lemma member_assignment_parse:
  "parse 10 rt [Tok ''IDENTIFIER'' ''a'' 1 1, Tok ''DOT'' ''.'' 1 2, Tok ''IDENTIFIER'' ''b'' 1 3,
                Tok ''EQUAL'' ''='' 1 5, Tok ''NUMBER'' ''1'' 1 7, Tok ''SEMICOLON'' '';'' 1 8,
                Tok ''EOF'' [] 1 9]
     = Some (Inr (Program
         [ExpressionStatement (MemberExpression (Identifier ''a'') (Identifier ''b''))]))"
  by (simp add: eval_nat_numeral parse_eval)

lemma group_assignment_tokens:
  "tokenize ''(x) = 1;''
     = Inr [Tok ''LEFT_PAREN'' ''('' 1 1, Tok ''IDENTIFIER'' ''x'' 1 2, Tok ''RIGHT_PAREN'' '')'' 1 3,
            Tok ''EQUAL'' ''='' 1 5, Tok ''NUMBER'' ''1'' 1 7, Tok ''SEMICOLON'' '';'' 1 8,
            Tok ''EOF'' [] 1 9]"
  by code_simp

lemma group_assignment_parse:
  "parse 10 rt [Tok ''LEFT_PAREN'' ''('' 1 1, Tok ''IDENTIFIER'' ''x'' 1 2, Tok ''RIGHT_PAREN'' '')'' 1 3,
                Tok ''EQUAL'' ''='' 1 5, Tok ''NUMBER'' ''1'' 1 7, Tok ''SEMICOLON'' '';'' 1 8,
                Tok ''EOF'' [] 1 9]
     = Some (Inr (Program [ExpressionStatement (GroupExpression (Identifier ''x''))]))"
  by (simp add: eval_nat_numeral parse_eval)

text \<open>
  Claim C6 at the sources \<open>a.b = 1;\<close> and \<open>(x) = 1;\<close>. \<open>assignment\<close> builds the
  \<open>SyntaxError\<close> "Invalid assignment target." and does not throw it: \<open>parse\<close> succeeds,
  and the tree holds the left side alone, the \<open>=\<close> and its right side dropped.
\<close>

theorem parse_invalid_assignment_target:
  "tokenize ''a.b = 1;''
     = Inr [Tok ''IDENTIFIER'' ''a'' 1 1, Tok ''DOT'' ''.'' 1 2, Tok ''IDENTIFIER'' ''b'' 1 3,
            Tok ''EQUAL'' ''='' 1 5, Tok ''NUMBER'' ''1'' 1 7, Tok ''SEMICOLON'' '';'' 1 8,
            Tok ''EOF'' [] 1 9]
   \<and> parse 10 rt [Tok ''IDENTIFIER'' ''a'' 1 1, Tok ''DOT'' ''.'' 1 2, Tok ''IDENTIFIER'' ''b'' 1 3,
                   Tok ''EQUAL'' ''='' 1 5, Tok ''NUMBER'' ''1'' 1 7, Tok ''SEMICOLON'' '';'' 1 8,
                   Tok ''EOF'' [] 1 9]
     = Some (Inr (Program
         [ExpressionStatement (MemberExpression (Identifier ''a'') (Identifier ''b''))]))
   \<and> tokenize ''(x) = 1;''
     = Inr [Tok ''LEFT_PAREN'' ''('' 1 1, Tok ''IDENTIFIER'' ''x'' 1 2, Tok ''RIGHT_PAREN'' '')'' 1 3,
            Tok ''EQUAL'' ''='' 1 5, Tok ''NUMBER'' ''1'' 1 7, Tok ''SEMICOLON'' '';'' 1 8,
            Tok ''EOF'' [] 1 9]
   \<and> parse 10 rt [Tok ''LEFT_PAREN'' ''('' 1 1, Tok ''IDENTIFIER'' ''x'' 1 2,
                   Tok ''RIGHT_PAREN'' '')'' 1 3, Tok ''EQUAL'' ''='' 1 5, Tok ''NUMBER'' ''1'' 1 7,
                   Tok ''SEMICOLON'' '';'' 1 8, Tok ''EOF'' [] 1 9]
     = Some (Inr (Program [ExpressionStatement (GroupExpression (Identifier ''x''))]))"
  by (simp only: member_assignment_tokens member_assignment_parse group_assignment_tokens
        group_assignment_parse simp_thms)

section \<open>Claims about the pipeline\<close>

subsection \<open>C1: semantic errors stop the pipeline\<close>

lemma duplicate_tokens:
  "tokenize ''var x; var x;''
     = Inr [Tok ''VAR'' ''var'' 1 1, Tok ''IDENTIFIER'' ''x'' 1 5, Tok ''SEMICOLON'' '';'' 1 6,
            Tok ''VAR'' ''var'' 1 8, Tok ''IDENTIFIER'' ''x'' 1 12, Tok ''SEMICOLON'' '';'' 1 13,
            Tok ''EOF'' [] 1 14]"
  by code_simp

lemma duplicate_parse:
  "parse 10 rt [Tok ''VAR'' ''var'' 1 1, Tok ''IDENTIFIER'' ''x'' 1 5, Tok ''SEMICOLON'' '';'' 1 6,
                Tok ''VAR'' ''var'' 1 8, Tok ''IDENTIFIER'' ''x'' 1 12, Tok ''SEMICOLON'' '';'' 1 13,
                Tok ''EOF'' [] 1 14]
     = Some (Inr (Program [VariableDeclaration ''x'' None, VariableDeclaration ''x'' None]))"
  by (simp add: eval_nat_numeral parse_eval)

lemma duplicate_analyze:
  "analyze (semanticAnalyzer new_Compiler)
     (Program [VariableDeclaration ''x'' None, VariableDeclaration ''x'' None])
     = ([duplicate_error],
        \<lparr>scopes = [[]],
         currentScope = [(''x'', \<lparr>sym_type = ''variable'', initialized = False, used = False\<rparr>)],
         sem_errors = [duplicate_error]\<rparr>)"
  by (simp add: new_Compiler_def analyze_eval duplicate_error_def)

lemma compile_stops_at_semantic_errors:
  assumes "tokenize src = Inr toks"
    and "parse fuel rt toks = Some (Inr tree)"
    and "analyze (semanticAnalyzer c) tree = (errs, analyzer')"
    and "errs \<noteq> []"
  shows "compile rt fuel c src =
           Some (\<lparr>success = False, tokens = Some toks, ast = Some tree, ir = None,
                  optimizedIr = None, code = None,
                  errors = map (\<lambda>e. \<lparr>phase = ''Semantic Analysis'', message = error_message e,
                                       at_line = None, at_column = None\<rparr>) errs\<rparr>,
                 c\<lparr>semanticAnalyzer := analyzer'\<rparr>)"
  using assms by (simp add: compile_def failure_def semantic_diagnostic_def)

text \<open>
  Claim C1. When lexer and parser succeed and the analyzer returns a non-empty list of
  errors, \<open>compile\<close> returns \<open>success = false\<close> with one diagnostic per error, in order,
  each of phase "Semantic Analysis" and without line or column; \<open>ir\<close>, \<open>optimizedIr\<close>
  and \<open>code\<close> are absent, \<open>tokens\<close> and \<open>ast\<close> are present. On a new compiler,
  \<open>compile("var x; var x;")\<close> returns exactly one diagnostic, for the second declaration
  of \<open>x\<close>.
\<close>

theorem compile_semantic_errors:
  assumes "tokenize src = Inr toks"
    and "parse fuel rt toks = Some (Inr tree)"
    and "analyze (semanticAnalyzer c) tree = (errs, analyzer')"
    and "errs \<noteq> []"
  shows "compile rt fuel c src =
           Some (\<lparr>success = False, tokens = Some toks, ast = Some tree, ir = None,
                  optimizedIr = None, code = None,
                  errors = map (\<lambda>e. \<lparr>phase = ''Semantic Analysis'', message = error_message e,
                                       at_line = None, at_column = None\<rparr>) errs\<rparr>,
                 c\<lparr>semanticAnalyzer := analyzer'\<rparr>)
       \<and> map_option fst (compile rt 10 new_Compiler ''var x; var x;'') =
           Some \<lparr>success = False,
                 tokens = Some [Tok ''VAR'' ''var'' 1 1, Tok ''IDENTIFIER'' ''x'' 1 5,
                                Tok ''SEMICOLON'' '';'' 1 6, Tok ''VAR'' ''var'' 1 8,
                                Tok ''IDENTIFIER'' ''x'' 1 12, Tok ''SEMICOLON'' '';'' 1 13,
                                Tok ''EOF'' [] 1 14],
                 ast = Some (Program [VariableDeclaration ''x'' None, VariableDeclaration ''x'' None]),
                 ir = None, optimizedIr = None, code = None,
                 errors = [\<lparr>phase = ''Semantic Analysis'',
                            message = ''Variable '' @ quoted ''x'' @ '' already declared in this scope'',
                            at_line = None, at_column = None\<rparr>]\<rparr>"
proof
  show "compile rt fuel c src =
           Some (\<lparr>success = False, tokens = Some toks, ast = Some tree, ir = None,
                  optimizedIr = None, code = None,
                  errors = map (\<lambda>e. \<lparr>phase = ''Semantic Analysis'', message = error_message e,
                                       at_line = None, at_column = None\<rparr>) errs\<rparr>,
                 c\<lparr>semanticAnalyzer := analyzer'\<rparr>)"
    using assms by (rule compile_stops_at_semantic_errors)
next
  show "map_option fst (compile rt 10 new_Compiler ''var x; var x;'') =
           Some \<lparr>success = False,
                 tokens = Some [Tok ''VAR'' ''var'' 1 1, Tok ''IDENTIFIER'' ''x'' 1 5,
                                Tok ''SEMICOLON'' '';'' 1 6, Tok ''VAR'' ''var'' 1 8,
                                Tok ''IDENTIFIER'' ''x'' 1 12, Tok ''SEMICOLON'' '';'' 1 13,
                                Tok ''EOF'' [] 1 14],
                 ast = Some (Program [VariableDeclaration ''x'' None, VariableDeclaration ''x'' None]),
                 ir = None, optimizedIr = None, code = None,
                 errors = [\<lparr>phase = ''Semantic Analysis'',
                            message = ''Variable '' @ quoted ''x'' @ '' already declared in this scope'',
                            at_line = None, at_column = None\<rparr>]\<rparr>"
    by (simp add: compile_stops_at_semantic_errors
          [OF duplicate_tokens duplicate_parse duplicate_analyze] duplicate_error_def)
qed

theorem compile_semantic_errors_witness:
  "tokenize ''var x; var x;''
     = Inr [Tok ''VAR'' ''var'' 1 1, Tok ''IDENTIFIER'' ''x'' 1 5, Tok ''SEMICOLON'' '';'' 1 6,
            Tok ''VAR'' ''var'' 1 8, Tok ''IDENTIFIER'' ''x'' 1 12, Tok ''SEMICOLON'' '';'' 1 13,
            Tok ''EOF'' [] 1 14]
   \<and> parse 10 ideal
        [Tok ''VAR'' ''var'' 1 1, Tok ''IDENTIFIER'' ''x'' 1 5, Tok ''SEMICOLON'' '';'' 1 6,
         Tok ''VAR'' ''var'' 1 8, Tok ''IDENTIFIER'' ''x'' 1 12, Tok ''SEMICOLON'' '';'' 1 13,
         Tok ''EOF'' [] 1 14]
     = Some (Inr (Program [VariableDeclaration ''x'' None, VariableDeclaration ''x'' None]))
   \<and> fst (analyze (semanticAnalyzer new_Compiler)
            (Program [VariableDeclaration ''x'' None, VariableDeclaration ''x'' None :: rat node]))
     = [duplicate_error]
   \<and> map_option (errors \<circ> fst) (compile ideal 10 new_Compiler ''var x; var x;'')
     = Some [\<lparr>phase = ''Semantic Analysis'',
              message = ''Variable '' @ quoted ''x'' @ '' already declared in this scope'',
              at_line = None, at_column = None\<rparr>]"
  using compile_semantic_errors [OF duplicate_tokens duplicate_parse [of ideal] duplicate_analyze]
  by (simp add: duplicate_tokens duplicate_parse duplicate_analyze duplicate_error_def)

subsection \<open>C8: state that one call of compile leaves to the next\<close>

lemma declaration_tokens:
  "tokenize ''var x = 1;''
     = Inr [Tok ''VAR'' ''var'' 1 1, Tok ''IDENTIFIER'' ''x'' 1 5, Tok ''EQUAL'' ''='' 1 7,
            Tok ''NUMBER'' ''1'' 1 9, Tok ''SEMICOLON'' '';'' 1 10, Tok ''EOF'' [] 1 11]"
  by code_simp

lemma declaration_parse:
  "parse 10 rt [Tok ''VAR'' ''var'' 1 1, Tok ''IDENTIFIER'' ''x'' 1 5, Tok ''EQUAL'' ''='' 1 7,
                Tok ''NUMBER'' ''1'' 1 9, Tok ''SEMICOLON'' '';'' 1 10, Tok ''EOF'' [] 1 11]
     = Some (Inr (Program
         [VariableDeclaration ''x'' (Some (Literal (VNum (parseFloat rt ''1''))))]))"
  by (simp add: eval_nat_numeral parse_eval)

lemma declaration_analyze_first:
  "analyze new_SemanticAnalyzer (Program [VariableDeclaration ''x'' (Some (Literal v))])
     = ([], analyzer_after_declaration)"
  by (simp add: analyze_eval analyzer_after_declaration_def)

lemma declaration_analyze_second:
  "fst (analyze analyzer_after_declaration (Program [VariableDeclaration ''x'' (Some (Literal v))]))
     = [SemanticError (''Variable '' @ quoted ''x'' @ '' already declared in this scope'')
          (VariableDeclaration ''x'' (Some (Literal v)))]"
  by (simp add: analyze_eval analyzer_after_declaration_def)

lemma declaration_generate:
  "generate (Program [VariableDeclaration ''x'' (Some (Literal v))])
     = Inr [Ins ''CONST'' [v, VStr ''t0''], Ins ''STORE'' [VStr ''t0'', VStr ''x'']]"
  by (simp add: generate_eval)

lemma declaration_code:
  "\<exists>emitted. generate_code rt [Ins ''STORE'' [VStr ''t0'', VStr ''x'']] = Inr emitted"
  by (simp add: codegen_eval)

text \<open>
  Claim C8 on one \<open>Compiler\<close> object and the source \<open>var x = 1;\<close>, compiled twice. The
  first call succeeds without diagnostics and leaves \<open>x\<close> in the analyzer's global scope:
  \<open>analyze\<close> empties the error list when it starts, not the scopes. The second call
  therefore finds \<open>x\<close> declared and fails with a "Semantic Analysis" diagnostic.
\<close>

theorem compile_twice_same_source:
  "\<exists>r1 c1 r2 c2.
     compile rt 10 new_Compiler ''var x = 1;'' = Some (r1, c1)
   \<and> success r1 \<and> errors r1 = []
   \<and> currentScope (semanticAnalyzer c1)
       = [(''x'', \<lparr>sym_type = ''variable'', initialized = True, used = False\<rparr>)]
   \<and> compile rt 10 c1 ''var x = 1;'' = Some (r2, c2)
   \<and> \<not> success r2
   \<and> errors r2 = [\<lparr>phase = ''Semantic Analysis'',
                    message = ''Variable '' @ quoted ''x'' @ '' already declared in this scope'',
                    at_line = None, at_column = None\<rparr>]"
proof -
  obtain emitted where emitted: "generate_code rt [Ins ''STORE'' [VStr ''t0'', VStr ''x'']] = Inr emitted"
    using declaration_code by blast
  let ?toks = "[Tok ''VAR'' ''var'' 1 1, Tok ''IDENTIFIER'' ''x'' 1 5, Tok ''EQUAL'' ''='' 1 7,
                Tok ''NUMBER'' ''1'' 1 9, Tok ''SEMICOLON'' '';'' 1 10, Tok ''EOF'' [] 1 11]"
  let ?tree = "Program [VariableDeclaration ''x'' (Some (Literal (VNum (parseFloat rt ''1''))))]"
  let ?c1 = "\<lparr>semanticAnalyzer = analyzer_after_declaration\<rparr> :: 'a Compiler"
  have first: "compile rt 10 new_Compiler ''var x = 1;''
      = Some (\<lparr>success = True, tokens = Some ?toks, ast = Some ?tree,
               ir = Some [Ins ''CONST'' [VNum (parseFloat rt ''1''), VStr ''t0''],
                          Ins ''STORE'' [VStr ''t0'', VStr ''x'']],
               optimizedIr = Some [Ins ''STORE'' [VStr ''t0'', VStr ''x'']],
               code = Some emitted, errors = []\<rparr>, ?c1)"
    by (simp add: compile_def declaration_tokens declaration_parse new_Compiler_def
          declaration_analyze_first declaration_generate store_example_optimize emitted)
  obtain analyzer2 where second_analysis:
    "analyze analyzer_after_declaration ?tree
       = ([SemanticError (''Variable '' @ quoted ''x'' @ '' already declared in this scope'')
             (VariableDeclaration ''x'' (Some (Literal (VNum (parseFloat rt ''1'')))))], analyzer2)"
    using declaration_analyze_second [of "VNum (parseFloat rt ''1'')"]
    by (cases "analyze analyzer_after_declaration ?tree") simp
  have second: "compile rt 10 ?c1 ''var x = 1;''
      = Some (failure (Some ?toks) (Some ?tree) None None
                [\<lparr>phase = ''Semantic Analysis'',
                  message = ''Variable '' @ quoted ''x'' @ '' already declared in this scope'',
                  at_line = None, at_column = None\<rparr>],
              ?c1\<lparr>semanticAnalyzer := analyzer2\<rparr>)"
    by (simp add: compile_def declaration_tokens declaration_parse second_analysis
          semantic_diagnostic_def)
  from first second show ?thesis
    by (simp add: failure_def analyzer_after_declaration_def)
qed

end
